theory Spec2Isabelle
  imports Complex_Main
begin

section \<open>Data model\<close>

text \<open>
  The game is one JavaScript file (two copies of it are in the repository, an earlier and a
  later one). JavaScript numbers are modelled by their mathematical values: coordinates,
  health and energy are \<open>real\<close>; clock readings of \<open>Date.now()\<close> (whole milliseconds),
  the score, the counters and the difficulty level are \<open>int\<close>. The one non-finite number
  the code uses, \<open>Infinity\<close> as the start value of a running minimum, is a constructor of
  its own.
\<close>

record vector3 =
  vx :: real
  vy :: real
  vz :: real

datatype number = Finite real | Infinity

text \<open>The comparison \<open>distance < minDistance\<close> of a finite number with a running minimum.\<close>

fun less_number :: "real \<Rightarrow> number \<Rightarrow> bool" where
  "less_number d Infinity = True"
| "less_number d (Finite m) = (d < m)"

text \<open>
  The engine's vector operations used by the game: \<open>BABYLON.Vector3.Distance\<close>,
  \<open>subtract\<close>, \<open>scale\<close>, \<open>add\<close> and \<open>normalize\<close> (which leaves a vector of
  length 0 as it is).
\<close>

definition Distance :: "vector3 \<Rightarrow> vector3 \<Rightarrow> real" where
  "Distance a b = sqrt ((vx a - vx b)\<^sup>2 + (vy a - vy b)\<^sup>2 + (vz a - vz b)\<^sup>2)"

definition subtract :: "vector3 \<Rightarrow> vector3 \<Rightarrow> vector3" where
  "subtract a b = \<lparr>vx = vx a - vx b, vy = vy a - vy b, vz = vz a - vz b\<rparr>"

definition add :: "vector3 \<Rightarrow> vector3 \<Rightarrow> vector3" where
  "add a b = \<lparr>vx = vx a + vx b, vy = vy a + vy b, vz = vz a + vz b\<rparr>"

definition scale :: "vector3 \<Rightarrow> real \<Rightarrow> vector3" where
  "scale a k = \<lparr>vx = vx a * k, vy = vy a * k, vz = vz a * k\<rparr>"

definition vlength :: "vector3 \<Rightarrow> real" where
  "vlength a = sqrt ((vx a)\<^sup>2 + (vy a)\<^sup>2 + (vz a)\<^sup>2)"

definition normalize_vec :: "vector3 \<Rightarrow> vector3" where
  "normalize_vec a = (if vlength a = 0 then a else scale a (1 / vlength a))"

text \<open>
  Entities. A laser is a mesh with the direction it was fired in; an astronaut is a mesh
  with its scroll-relative start coordinates; a \<open>Lander\<close> object owns a mesh, its
  \<open>initialZ\<close> and its \<open>speed\<close>; the field \<open>position\<close> of a lander record is
  \<open>mesh.position\<close>, the \<open>Lander\<close> object has no property of that name itself. The
  lander's \<open>astronauts\<close> field is a reference to the
  game's own array, so the model hands the game's current list to \<open>Lander_update\<close>.
\<close>

record mesh =
  position :: vector3

record laser = mesh +
  direction :: vector3

record grounded = mesh +
  initialZ :: real

record astronaut = grounded +
  initialX :: real

record lander = grounded +
  speed :: real

text \<open>
  The fields of the \<open>Game\<close> object that the gameplay logic reads or writes.
  \<open>sceneReady\<close> stands for \<open>this.scene\<close> being set, \<open>cameraPosition\<close> for
  \<open>this.camera.position\<close>, \<open>gamePlaneZ\<close> for \<open>this.gamePlane.position.z\<close>.
  \<open>gameOverShown\<close> is not a field of the source: it counts the calls of
  \<open>showGameOver\<close>, whose only effect is on the screen.
\<close>

record game =
  astronauts :: "astronaut list"
  lasers :: "laser list"
  landers :: "lander list"
  score :: int
  astronautsSaved :: int
  landersDestroyed :: int
  isRunning :: bool
  isGameOver :: bool
  gameSpeed :: real
  difficulty :: int
  maxEnemies :: int
  laserSpeed :: real
  landerSpawnInterval :: int
  lastLanderSpawn :: int
  maxHealth :: real
  health :: real
  maxEnergy :: real
  energy :: real
  energyRechargeRate :: real
  laserEnergyCost :: real
  verticalVelocity :: real
  startTime :: int
  sceneReady :: bool
  cameraPosition :: vector3
  gamePlaneZ :: real
  gameOverShown :: nat

text \<open>
  \<open>initializeGameProperties\<close>, with the camera position and ground plane that
  \<open>createScene\<close> sets up and the two counters as the earlier copy's constructor
  initialises them. \<open>now\<close> is the reading of \<open>Date.now()\<close>; \<open>crew\<close> is the list of
  astronauts that \<open>createAstronauts\<close> places at random.
\<close>

definition initializeGameProperties :: "int \<Rightarrow> astronaut list \<Rightarrow> game" where
  "initializeGameProperties now crew =
     \<lparr>astronauts = crew, lasers = [], landers = [],
      score = 0, astronautsSaved = 0, landersDestroyed = 0,
      isRunning = False, isGameOver = False,
      gameSpeed = 1, difficulty = 1, maxEnemies = 5,
      laserSpeed = 2,
      landerSpawnInterval = 3000, lastLanderSpawn = 0,
      maxHealth = 100, health = 100, maxEnergy = 100, energy = 100,
      energyRechargeRate = 2 / 10, laserEnergyCost = 10,
      verticalVelocity = 0,
      startTime = now, sceneReady = True,
      cameraPosition = \<lparr>vx = 0, vy = 10, vz = - 8\<rparr>, gamePlaneZ = 0,
      gameOverShown = 0\<rparr>"

section \<open>Score and counters\<close>

definition updateScore :: "int \<Rightarrow> game \<Rightarrow> game" where
  "updateScore points g = g\<lparr>score := score g + points\<rparr>"

definition updateAstronautsSaved :: "game \<Rightarrow> game" where
  "updateAstronautsSaved g = updateScore 100 (g\<lparr>astronautsSaved := astronautsSaved g + 1\<rparr>)"

definition updateLandersDestroyed :: "game \<Rightarrow> game" where
  "updateLandersDestroyed g = updateScore 50 (g\<lparr>landersDestroyed := landersDestroyed g + 1\<rparr>)"

section \<open>Resource economy\<close>

text \<open>
  \<open>shootLaser\<close>: \<open>forward\<close> is the camera's forward direction, read from the engine.
\<close>

definition shootLaser :: "vector3 \<Rightarrow> game \<Rightarrow> game" where
  "shootLaser forward g =
     (if energy g \<ge> laserEnergyCost g
      then g\<lparr>lasers := lasers g @ [\<lparr>position = cameraPosition g, direction = forward\<rparr>],
             energy := energy g - laserEnergyCost g\<rparr>
      else g)"

definition showGameOver :: "game \<Rightarrow> game" where
  "showGameOver g = g\<lparr>gameOverShown := Suc (gameOverShown g)\<rparr>"

definition takeDamage :: "real \<Rightarrow> game \<Rightarrow> game" where
  "takeDamage amount g =
     (let g1 = g\<lparr>health := max 0 (health g - amount)\<rparr>
      in if health g1 \<le> 0 \<and> \<not> isGameOver g1
         then showGameOver (g1\<lparr>isGameOver := True\<rparr>)
         else g1)"

text \<open>The energy block of \<open>update\<close> (\<open>// Update energy\<close>).\<close>

definition update_energy :: "game \<Rightarrow> game" where
  "update_energy g =
     (if energy g < maxEnergy g
      then g\<lparr>energy := min (maxEnergy g) (energy g + energyRechargeRate g)\<rparr>
      else g)"

text \<open>
  The vertical-thruster block of \<open>updateMovement\<close>: \<open>q\<close> and \<open>e\<close> are the states of
  the two keys, \<open>deltaTime\<close> the frame time in seconds.
\<close>

definition updateMovement_thrusters :: "bool \<Rightarrow> bool \<Rightarrow> real \<Rightarrow> game \<Rightarrow> game" where
  "updateMovement_thrusters q e deltaTime g =
     (if q then g\<lparr>verticalVelocity := min (verticalVelocity g + 15 * deltaTime) 5,
                  energy := max 0 (energy g - 5 / 10)\<rparr>
      else if e then g\<lparr>verticalVelocity := max (verticalVelocity g - 15 * deltaTime) (- 5),
                       energy := max 0 (energy g - 5 / 10)\<rparr>
      else g)"

section \<open>Difficulty controller\<close>

definition updateDifficulty :: "int \<Rightarrow> game \<Rightarrow> game" where
  "updateDifficulty now g =
     (let timePlayed = real_of_int (now - startTime g) / 1000;
          d = min 10 (1 + \<lfloor>timePlayed / 30\<rfloor>)
      in g\<lparr>difficulty := d,
            gameSpeed := 1 + real_of_int d * (1 / 10),
            landerSpawnInterval := max 1000 (3000 - d * 200),
            maxEnemies := 5 + \<lfloor>real_of_int d / 2\<rfloor>\<rparr>)"

section \<open>Spawner\<close>

text \<open>The \<open>Lander\<close> constructor: the mesh is placed at \<open>position\<close>.\<close>

definition Lander_new :: "vector3 \<Rightarrow> lander" where
  "Lander_new p = \<lparr>position = p, initialZ = vz p, speed = 3 / 10\<rparr>"

text \<open>
  \<open>spawnLander\<close>: \<open>rnd\<close> is the value of \<open>Math.random()\<close>. The guard on
  \<open>this.scene\<close> is the field \<open>sceneReady\<close>; \<open>this.astronauts\<close> is always an array
  and the constructor always builds a mesh, so the other two guards never fail.
\<close>

definition spawnLander :: "real \<Rightarrow> game \<Rightarrow> game" where
  "spawnLander rnd g =
     (if \<not> sceneReady g then g
      else let x = 400;
               z = rnd * 800 - 400;
               lander = Lander_new \<lparr>vx = x, vy = 0, vz = z\<rparr>
           in g\<lparr>landers := landers g @ [lander]\<rparr>)"

text \<open>The spawn block of \<open>update\<close> (\<open>// Spawn new lander if it's time\<close>).\<close>

definition update_spawn :: "int \<Rightarrow> real \<Rightarrow> game \<Rightarrow> game" where
  "update_spawn currentTime rnd g =
     (if currentTime - lastLanderSpawn g > landerSpawnInterval g
      then (spawnLander rnd g)\<lparr>lastLanderSpawn := currentTime\<rparr>
      else g)"

section \<open>Lander steering\<close>

text \<open>
  The \<open>for ... of\<close> loop of \<open>Lander.update\<close>; the accumulator is the pair
  \<open>(nearestAstronaut, minDistance)\<close>. Every element of the array is an astronaut mesh
  with a position, and a lander always has its mesh, so the guards of the later copy that
  skip anything else never fire.
\<close>

fun nearest_scan ::
  "lander \<Rightarrow> astronaut list \<Rightarrow> astronaut option \<times> number \<Rightarrow> astronaut option \<times> number" where
  "nearest_scan l [] acc = acc"
| "nearest_scan l (a # as) (nearestAstronaut, minDistance) =
     (let distance = Distance \<lparr>vx = vx (position l), vy = 0, vz = vz (position l)\<rparr>
                              \<lparr>vx = vx (position a), vy = 0, vz = vz (position a)\<rparr>
      in if less_number distance minDistance
         then nearest_scan l as (Some a, Finite distance)
         else nearest_scan l as (nearestAstronaut, minDistance))"

definition Lander_update :: "real \<Rightarrow> astronaut list \<Rightarrow> lander \<Rightarrow> lander" where
  "Lander_update planeZ crew l =
     (let l1 = l\<lparr>position := (position l)\<lparr>vz := initialZ l + planeZ\<rparr>\<rparr>
      in case fst (nearest_scan l1 crew (None, Infinity)) of
           None \<Rightarrow> l1
         | Some a \<Rightarrow>
             (let dir = normalize_vec (subtract (position a) (position l1))
              in l1\<lparr>position := (position l1)\<lparr>vx := vx (position l1) + vx dir * speed l1\<rparr>\<rparr>))"

text \<open>
  The planar distance of the specification: the Euclidean distance of the \<open>(x, z)\<close>
  coordinates, \<open>y\<close> ignored. \<open>planar_Distance\<close> below shows that it is what the loop
  computes.
\<close>

definition planarDistance :: "vector3 \<Rightarrow> vector3 \<Rightarrow> real" where
  "planarDistance p q = sqrt ((vx p - vx q)\<^sup>2 + (vz p - vz q)\<^sup>2)"

section \<open>Collision scans\<close>

text \<open>\<open>xs.splice(i, 1)\<close>.\<close>

definition splice1 :: "nat \<Rightarrow> 'a list \<Rightarrow> 'a list" where
  "splice1 i xs = take i xs @ drop (Suc i) xs"

text \<open>
  The inner loops \<open>for (let j = xs.length - 1; j >= 0; j--) if (P(xs[j])) ...\<close>:
  \<open>scanDown P xs n\<close> looks at the indices \<open>n - 1\<close> down to \<open>0\<close> and gives the first
  one found.
\<close>

fun scanDown :: "('a \<Rightarrow> bool) \<Rightarrow> 'a list \<Rightarrow> nat \<Rightarrow> nat option" where
  "scanDown P xs 0 = None"
| "scanDown P xs (Suc j) = (if P (xs ! j) then Some j else scanDown P xs j)"

definition moveLaser :: "real \<Rightarrow> laser \<Rightarrow> laser" where
  "moveLaser v l = l\<lparr>position := add (position l) (scale (direction l) v)\<rparr>"

text \<open>
  \<open>updateLasers\<close>, the version that moves the lasers and tests them against the landers
  (the later copy of the file declares the name a second time, further down in the class, as
  a bounds check on the lasers' height; likewise for \<open>updateLanders\<close>).
  \<open>hit\<close> is the engine's \<open>laser.intersectsMesh(lander.mesh, false)\<close>. The outer
  loop runs \<open>i\<close> from \<open>lasers.length - 1\<close> down to \<open>0\<close>; \<open>updateLasers_from hit n\<close>
  is the loop with \<open>n\<close> indices left, and its first branch is the \<open>return\<close>.
\<close>

fun updateLasers_from :: "(laser \<Rightarrow> lander \<Rightarrow> bool) \<Rightarrow> nat \<Rightarrow> game \<Rightarrow> game" where
  "updateLasers_from hit 0 g = g"
| "updateLasers_from hit (Suc i) g =
     (let laser = moveLaser (laserSpeed g) (lasers g ! i);
          g1 = g\<lparr>lasers := (lasers g)[i := laser]\<rparr>
      in case scanDown (hit laser) (landers g1) (length (landers g1)) of
           Some j \<Rightarrow>
             updateLandersDestroyed
               (g1\<lparr>lasers := splice1 i (lasers g1), landers := splice1 j (landers g1)\<rparr>)
         | None \<Rightarrow>
             if Distance (position laser) (cameraPosition g1) > 500
             then updateLasers_from hit i (g1\<lparr>lasers := splice1 i (lasers g1)\<rparr>)
             else updateLasers_from hit i g1)"

definition updateLasers :: "(laser \<Rightarrow> lander \<Rightarrow> bool) \<Rightarrow> game \<Rightarrow> game" where
  "updateLasers hit g = updateLasers_from hit (length (lasers g)) g"

text \<open>
  \<open>updateLanders\<close>, the version that steers the landers and tests them against the player
  and the astronauts. \<open>touch\<close> is the engine's
  \<open>lander.mesh.intersectsMesh(astronaut, false)\<close>.
\<close>

fun updateLanders_from :: "(lander \<Rightarrow> astronaut \<Rightarrow> bool) \<Rightarrow> nat \<Rightarrow> game \<Rightarrow> game" where
  "updateLanders_from touch 0 g = g"
| "updateLanders_from touch (Suc i) g =
     (let lander = Lander_update (gamePlaneZ g) (astronauts g) (landers g ! i);
          g1 = g\<lparr>landers := (landers g)[i := lander]\<rparr>
      in if Distance (position lander) (cameraPosition g1) < 3
         then (let g2 = takeDamage 20 g1
               in updateLanders_from touch i (g2\<lparr>landers := splice1 i (landers g2)\<rparr>))
         else case scanDown (touch lander) (astronauts g1) (length (astronauts g1)) of
                Some j \<Rightarrow>
                  g1\<lparr>landers := splice1 i (landers g1),
                     astronauts := splice1 j (astronauts g1)\<rparr>
              | None \<Rightarrow>
                  if vz (position lander) < - 500
                  then updateLanders_from touch i (g1\<lparr>landers := splice1 i (landers g1)\<rparr>)
                  else updateLanders_from touch i g1)"

definition updateLanders :: "(lander \<Rightarrow> astronaut \<Rightarrow> bool) \<Rightarrow> game \<Rightarrow> game" where
  "updateLanders touch g = updateLanders_from touch (length (landers g)) g"

text \<open>
  \<open>checkObjectCollision\<close> and \<open>checkCollisions\<close>, which the later copy of the file
  adds. \<open>checkObjectCollision\<close> reads the property \<open>position\<close> of its two arguments,
  whatever objects they are. A mesh has that property. A \<open>Lander\<close> object has the
  properties \<open>mesh\<close>, \<open>initialZ\<close>, \<open>speed\<close> and \<open>astronauts\<close> and no
  \<open>position\<close>: the read gives \<open>undefined\<close>, and the engine's \<open>Vector3.Distance\<close>
  throws a \<open>TypeError\<close> when it reads the coordinates of \<open>undefined\<close>.
\<close>

datatype error = TypeError

datatype object = MeshObject vector3 | LanderObject lander

fun get_position :: "object \<Rightarrow> vector3 option" where
  "get_position (MeshObject p) = Some p"
| "get_position (LanderObject l) = None"

definition checkObjectCollision :: "object \<Rightarrow> object \<Rightarrow> error + bool" where
  "checkObjectCollision obj1 obj2 =
     (case get_position obj1 of
        None \<Rightarrow> Inl TypeError
      | Some p \<Rightarrow>
          (case get_position obj2 of
             None \<Rightarrow> Inl TypeError
           | Some q \<Rightarrow> Inr (Distance p q < 2)))"

text \<open>The inner loop of \<open>checkCollisions\<close>, with a test that can throw.\<close>

fun scanDown_throwing :: "('a \<Rightarrow> error + bool) \<Rightarrow> 'a list \<Rightarrow> nat \<Rightarrow> error + nat option" where
  "scanDown_throwing P xs 0 = Inr None"
| "scanDown_throwing P xs (Suc j) =
     (case P (xs ! j) of
        Inl e \<Rightarrow> Inl e
      | Inr collides \<Rightarrow> if collides then Inr (Some j) else scanDown_throwing P xs j)"

text \<open>
  \<open>checkCollisions\<close>: the lasers are meshes, the elements of \<open>landers\<close> are
  \<open>Lander\<close> objects. The result is the new state, or the error thrown together with the
  state at that moment. The explosion is presentation only.
\<close>

fun checkCollisions_from :: "nat \<Rightarrow> game \<Rightarrow> (error \<times> game) + game" where
  "checkCollisions_from 0 g = Inr g"
| "checkCollisions_from (Suc i) g =
     (let laser = lasers g ! i
      in case scanDown_throwing
                (\<lambda>lander. checkObjectCollision (MeshObject (position laser)) (LanderObject lander))
                (landers g) (length (landers g)) of
           Inl e \<Rightarrow> Inl (e, g)
         | Inr (Some j) \<Rightarrow>
             checkCollisions_from i
               (updateScore 100
                  (g\<lparr>lasers := splice1 i (lasers g), landers := splice1 j (landers g)\<rparr>))
         | Inr None \<Rightarrow> checkCollisions_from i g)"

definition checkCollisions :: "game \<Rightarrow> (error \<times> game) + game" where
  "checkCollisions g = checkCollisions_from (length (lasers g)) g"

text \<open>
  The \<open>try ... catch\<close> of \<open>update\<close> around a step that may throw: the error is logged
  and the game stops running.
\<close>

fun update_catch :: "(error \<times> game) + game \<Rightarrow> game" where
  "update_catch (Inr g) = g"
| "update_catch (Inl (e, g)) = g\<lparr>isRunning := False\<rparr>"

text \<open>
  \<open>updateAstronauts\<close> as the later copy declares it the second time (the declaration
  that is in force there): the astronauts sink, and one that falls out of bounds is removed
  with a penalty of 50.
\<close>

fun updateAstronauts_from :: "nat \<Rightarrow> game \<Rightarrow> game" where
  "updateAstronauts_from 0 g = g"
| "updateAstronauts_from (Suc i) g =
     (let a = astronauts g ! i;
          a1 = a\<lparr>position := (position a)\<lparr>vy := vy (position a) - gameSpeed g * (3 / 10)\<rparr>\<rparr>;
          g1 = g\<lparr>astronauts := (astronauts g)[i := a1]\<rparr>
      in if vy (position a1) < - 100
         then updateAstronauts_from i
                (updateScore (- 50) (g1\<lparr>astronauts := splice1 i (astronauts g1)\<rparr>))
         else updateAstronauts_from i g1)"

definition updateAstronauts :: "game \<Rightarrow> game" where
  "updateAstronauts g = updateAstronauts_from (length (astronauts g)) g"

section \<open>Threat display\<close>

fun closest_scan :: "vector3 \<Rightarrow> lander list \<Rightarrow> number \<Rightarrow> number" where
  "closest_scan c [] closestDistance = closestDistance"
| "closest_scan c (l # ls) closestDistance =
     (let distance = Distance c (position l)
      in if less_number distance closestDistance
         then closest_scan c ls (Finite distance)
         else closest_scan c ls closestDistance)"

definition getClosestLanderDistance :: "game \<Rightarrow> number" where
  "getClosestLanderDistance g =
     (if length (landers g) = 0 then Finite 0
      else closest_scan (cameraPosition g) (landers g) Infinity)"

section \<open>Resource bounds\<close>

text \<open>
  The health and energy fields together with the constants that bound or change them, and
  the bounds themselves. The recharge rate and the laser cost are part of the invariant:
  they are never assigned after initialisation, and the bounds on energy rely on their sign.
\<close>

definition resources :: "game \<Rightarrow> real \<times> real \<times> real \<times> real \<times> real \<times> real" where
  "resources g =
     (health g, maxHealth g, energy g, maxEnergy g, energyRechargeRate g, laserEnergyCost g)"

definition resources_ok :: "game \<Rightarrow> bool" where
  "resources_ok g \<longleftrightarrow>
     0 \<le> health g \<and> health g \<le> maxHealth g \<and>
     0 \<le> energy g \<and> energy g \<le> maxEnergy g \<and>
     0 \<le> energyRechargeRate g \<and> 0 \<le> laserEnergyCost g"

section \<open>Reachable states\<close>

text \<open>
  \<open>start\<close> of the later copy (without a scene it throws before it assigns anything,
  which leaves the state as it was), and the states the game can be in: the initial one and
  whatever the operations above make of a reachable state. These operations contain every
  assignment to \<open>health\<close> and \<open>energy\<close> in the source. \<open>takeDamage\<close> is called by
  \<open>updateLanders\<close> with the amount 20; it is also a step of its own here, with any
  amount that is not negative. The rest of the program (camera movement and gravity, the
  scrolling ground, the astronauts' updates with the penalty for a lost astronaut, the
  bounds checks on lasers and landers, pause and resume) assigns only the fields of rule
  \<open>r_other\<close>, which allows any values for them.
\<close>

definition start :: "int \<Rightarrow> game \<Rightarrow> game" where
  "start now g =
     (if \<not> sceneReady g then g
      else g\<lparr>isRunning := True, isGameOver := False, startTime := now\<rparr>)"

inductive_set reachable ::
  "(laser \<Rightarrow> lander \<Rightarrow> bool) \<Rightarrow> (lander \<Rightarrow> astronaut \<Rightarrow> bool) \<Rightarrow> game set"
  for hit :: "laser \<Rightarrow> lander \<Rightarrow> bool" and touch :: "lander \<Rightarrow> astronaut \<Rightarrow> bool" where
  r_init: "initializeGameProperties now crew \<in> reachable hit touch"
| r_start: "g \<in> reachable hit touch \<Longrightarrow> start now g \<in> reachable hit touch"
| r_spawn: "g \<in> reachable hit touch \<Longrightarrow> 0 \<le> rnd \<Longrightarrow> rnd < 1 \<Longrightarrow>
            update_spawn now rnd g \<in> reachable hit touch"
| r_energy: "g \<in> reachable hit touch \<Longrightarrow> update_energy g \<in> reachable hit touch"
| r_thrusters: "g \<in> reachable hit touch \<Longrightarrow>
                updateMovement_thrusters q e deltaTime g \<in> reachable hit touch"
| r_shoot: "g \<in> reachable hit touch \<Longrightarrow> shootLaser forward g \<in> reachable hit touch"
| r_lasers: "g \<in> reachable hit touch \<Longrightarrow> updateLasers hit g \<in> reachable hit touch"
| r_landers: "g \<in> reachable hit touch \<Longrightarrow> updateLanders touch g \<in> reachable hit touch"
| r_damage: "g \<in> reachable hit touch \<Longrightarrow> 0 \<le> amount \<Longrightarrow>
             takeDamage amount g \<in> reachable hit touch"
| r_collisions: "g \<in> reachable hit touch \<Longrightarrow>
                 update_catch (checkCollisions g) \<in> reachable hit touch"
| r_astronauts: "g \<in> reachable hit touch \<Longrightarrow> updateAstronauts g \<in> reachable hit touch"
| r_difficulty: "g \<in> reachable hit touch \<Longrightarrow> updateDifficulty now g \<in> reachable hit touch"
| r_other: "g \<in> reachable hit touch \<Longrightarrow>
            g\<lparr>cameraPosition := p, gamePlaneZ := z, verticalVelocity := v, isRunning := b,
              astronauts := crew, lasers := ls, landers := las, score := sc\<rparr>
              \<in> reachable hit touch"

section \<open>Firing\<close>

lemma shootLaser_cost: "laserEnergyCost (shootLaser f g) = laserEnergyCost g"
  by (simp add: shootLaser_def)

lemma shootLaser_run:
  "laserEnergyCost g = c \<Longrightarrow> 0 \<le> c \<Longrightarrow> real (length fs) * c \<le> energy g \<Longrightarrow>
   energy (fold shootLaser fs g) = energy g - real (length fs) * c \<and>
   length (lasers (fold shootLaser fs g)) = length (lasers g) + length fs \<and>
   laserEnergyCost (fold shootLaser fs g) = c"
proof (induction fs arbitrary: g)
  case Nil
  then show ?case by simp
next
  case (Cons f fs)
  have c1: "c \<le> energy g"
  proof -
    have "c \<le> real (length (f # fs)) * c" using Cons.prems(2) by (simp add: algebra_simps)
    then show ?thesis using Cons.prems(3) by linarith
  qed
  let ?g = "shootLaser f g"
  have e: "energy ?g = energy g - c" and l: "length (lasers ?g) = Suc (length (lasers g))"
    and k: "laserEnergyCost ?g = c"
    using c1 Cons.prems(1) by (simp_all add: shootLaser_def)
  have "real (length fs) * c \<le> energy ?g"
    using Cons.prems(3) e by (simp add: algebra_simps)
  from Cons.IH[OF k Cons.prems(2) this] e l show ?case
    by (simp add: algebra_simps)
qed

text \<open>
  Claim C3. With \<open>energy < laserEnergyCost\<close>, \<open>shootLaser\<close> returns the state as it
  was: energy and lasers unchanged, and the model has no error branch to take. With
  \<open>energy \<ge> laserEnergyCost\<close> it appends exactly one laser and lowers the energy by
  exactly \<open>laserEnergyCost\<close>. From energy 100 at cost 10, ten shots in a row with no
  recharge between them (\<open>fs\<close> lists their directions) bring the energy to exactly 0 and add
  ten lasers, and an eleventh shot changes nothing.
\<close>

theorem shootLaser_energy_gate:
  "(energy g < laserEnergyCost g \<longrightarrow> shootLaser f g = g) \<and>
   (laserEnergyCost g \<le> energy g \<longrightarrow>
      lasers (shootLaser f g) = lasers g @ [\<lparr>position = cameraPosition g, direction = f\<rparr>] \<and>
      length (lasers (shootLaser f g)) = length (lasers g) + 1 \<and>
      energy (shootLaser f g) = energy g - laserEnergyCost g) \<and>
   (energy g = 100 \<and> laserEnergyCost g = 10 \<and> length fs = 10 \<longrightarrow>
      energy (fold shootLaser fs g) = 0 \<and>
      length (lasers (fold shootLaser fs g)) = length (lasers g) + 10 \<and>
      shootLaser f (fold shootLaser fs g) = fold shootLaser fs g)"
proof (intro conjI impI)
  assume "energy g < laserEnergyCost g"
  then show "shootLaser f g = g" by (simp add: shootLaser_def)
next
  assume h: "laserEnergyCost g \<le> energy g"
  then show "lasers (shootLaser f g) = lasers g @ [\<lparr>position = cameraPosition g, direction = f\<rparr>]"
    by (simp add: shootLaser_def)
  from h show "length (lasers (shootLaser f g)) = length (lasers g) + 1"
    by (simp add: shootLaser_def)
  from h show "energy (shootLaser f g) = energy g - laserEnergyCost g"
    by (simp add: shootLaser_def)
next
  assume h: "energy g = 100 \<and> laserEnergyCost g = 10 \<and> length fs = 10"
  then have r: "energy (fold shootLaser fs g) = energy g - real (length fs) * 10 \<and>
      length (lasers (fold shootLaser fs g)) = length (lasers g) + length fs \<and>
      laserEnergyCost (fold shootLaser fs g) = 10"
    by (intro shootLaser_run) simp_all
  from r h show "energy (fold shootLaser fs g) = 0" by simp
  from r h show "length (lasers (fold shootLaser fs g)) = length (lasers g) + 10" by simp
  from r h show "shootLaser f (fold shootLaser fs g) = fold shootLaser fs g"
    by (simp add: shootLaser_def)
qed

theorem shootLaser_energy_gate_witness:
  "energy (fold shootLaser (replicate 10 \<lparr>vx = 0, vy = 0, vz = 1\<rparr>) (initializeGameProperties 0 [])) = 0 \<and>
   length (lasers (fold shootLaser (replicate 10 \<lparr>vx = 0, vy = 0, vz = 1\<rparr>) (initializeGameProperties 0 []))) = 10 \<and>
   shootLaser \<lparr>vx = 0, vy = 0, vz = 1\<rparr>
     (fold shootLaser (replicate 10 \<lparr>vx = 0, vy = 0, vz = 1\<rparr>) (initializeGameProperties 0 []))
   = fold shootLaser (replicate 10 \<lparr>vx = 0, vy = 0, vz = 1\<rparr>) (initializeGameProperties 0 []) \<and>
   energy (shootLaser \<lparr>vx = 0, vy = 0, vz = 1\<rparr> (initializeGameProperties 0 [])) = 90 \<and>
   shootLaser \<lparr>vx = 0, vy = 0, vz = 1\<rparr> ((initializeGameProperties 0 [])\<lparr>energy := 5\<rparr>)
     = (initializeGameProperties 0 [])\<lparr>energy := 5\<rparr>"
  using shootLaser_energy_gate [of "initializeGameProperties 0 []" "\<lparr>vx = 0, vy = 0, vz = 1\<rparr>"
          "replicate 10 \<lparr>vx = 0, vy = 0, vz = 1\<rparr>"]
        shootLaser_energy_gate [of "(initializeGameProperties 0 [])\<lparr>energy := 5\<rparr>"
          "\<lparr>vx = 0, vy = 0, vz = 1\<rparr>" "[]"]
  by (simp add: initializeGameProperties_def)

section \<open>Damage and game over\<close>

lemma takeDamage_health: "health (takeDamage a g) = max 0 (health g - a)"
  by (simp add: takeDamage_def showGameOver_def Let_def)

lemma takeDamage_isGameOver:
  "isGameOver (takeDamage a g) = (isGameOver g \<or> health g - a \<le> 0)"
  by (auto simp add: takeDamage_def showGameOver_def Let_def)

lemma takeDamage_gameOverShown:
  "gameOverShown (takeDamage a g) =
     (if health g - a \<le> 0 \<and> \<not> isGameOver g then Suc (gameOverShown g) else gameOverShown g)"
  by (auto simp add: takeDamage_def showGameOver_def Let_def)

text \<open>Once the game is over, further damage never shows the game-over screen again.\<close>

lemma takeDamage_after_game_over:
  "isGameOver g \<Longrightarrow>
   isGameOver (fold takeDamage amounts g) \<and>
   gameOverShown (fold takeDamage amounts g) = gameOverShown g"
  by (induction amounts arbitrary: g)
     (simp_all add: takeDamage_isGameOver takeDamage_gameOverShown)

lemma takeDamage_run:
  "\<forall>a\<in>set amounts. 0 \<le> a \<Longrightarrow> 0 \<le> health g \<Longrightarrow>
   (isGameOver g \<longrightarrow> health g = 0) \<Longrightarrow>
   gameOverShown g = (if isGameOver g then 1 else 0) \<Longrightarrow>
   0 \<le> health (fold takeDamage amounts g) \<and>
   health (fold takeDamage amounts g) \<le> health g \<and>
   (isGameOver (fold takeDamage amounts g) \<longrightarrow> health (fold takeDamage amounts g) = 0) \<and>
   gameOverShown (fold takeDamage amounts g) =
     (if isGameOver (fold takeDamage amounts g) then 1 else 0) \<and>
   (amounts \<noteq> [] \<longrightarrow>
      isGameOver (fold takeDamage amounts g) = (health (fold takeDamage amounts g) = 0))"
proof (induction amounts arbitrary: g)
  case Nil
  then show ?case by simp
next
  case (Cons a amounts)
  let ?g = "takeDamage a g"
  have a0: "0 \<le> a" and rest: "\<forall>a\<in>set amounts. 0 \<le> a" using Cons.prems(1) by simp_all
  have h0: "0 \<le> health ?g" by (simp add: takeDamage_health)
  have hle: "health ?g \<le> health g" using a0 Cons.prems(2) by (simp add: takeDamage_health)
  have go: "isGameOver ?g = (health ?g = 0)"
    using a0 Cons.prems(2,3) by (auto simp add: takeDamage_health takeDamage_isGameOver max_def)
  have sh: "gameOverShown ?g = (if isGameOver ?g then 1 else 0)"
    using Cons.prems(4) by (auto simp add: takeDamage_isGameOver takeDamage_gameOverShown)
  have ih: "0 \<le> health (fold takeDamage amounts ?g) \<and>
      health (fold takeDamage amounts ?g) \<le> health ?g \<and>
      (isGameOver (fold takeDamage amounts ?g) \<longrightarrow> health (fold takeDamage amounts ?g) = 0) \<and>
      gameOverShown (fold takeDamage amounts ?g) =
        (if isGameOver (fold takeDamage amounts ?g) then 1 else 0) \<and>
      (amounts \<noteq> [] \<longrightarrow>
        isGameOver (fold takeDamage amounts ?g) = (health (fold takeDamage amounts ?g) = 0))"
    using go by (intro Cons.IH[OF rest h0 _ sh]) simp
  show ?case
  proof (cases "amounts = []")
    case True
    then show ?thesis using h0 hle go sh by simp
  next
    case False
    then show ?thesis using ih hle by simp
  qed
qed

text \<open>
  Claim C4. Start from a game that is not over and has never shown the game-over screen,
  with health at least 0, and apply any sequence of \<open>takeDamage\<close> calls with amounts that
  are not negative (the game's only call passes 20). Health never goes below 0 and never
  increases, also not over a further run of calls \<open>later\<close>. The game-over transition
  has fired exactly once if a call has brought health to 0 and not at all otherwise. From
  health 100, five calls with damage 20 reach health 0 and fire it once, and it has still
  fired exactly once after any further calls.
\<close>

theorem takeDamage_game_over_once:
  assumes "\<forall>a\<in>set amounts. 0 \<le> a" and "\<forall>a\<in>set later. 0 \<le> a"
    and "0 \<le> health g" and "\<not> isGameOver g" and "gameOverShown g = 0"
  shows "0 \<le> health (fold takeDamage amounts g) \<and>
         health (fold takeDamage amounts g) \<le> health g \<and>
         health (fold takeDamage (amounts @ later) g) \<le> health (fold takeDamage amounts g) \<and>
         gameOverShown (fold takeDamage amounts g) =
           (if amounts \<noteq> [] \<and> health (fold takeDamage amounts g) = 0 then 1 else 0) \<and>
         isGameOver (fold takeDamage amounts g) =
           (amounts \<noteq> [] \<and> health (fold takeDamage amounts g) = 0) \<and>
         (health g = 100 \<longrightarrow>
            health (fold takeDamage (replicate 5 20) g) = 0 \<and>
            isGameOver (fold takeDamage (replicate 5 20) g) \<and>
            gameOverShown (fold takeDamage (replicate 5 20) g) = 1 \<and>
            gameOverShown (fold takeDamage (replicate 5 20 @ later) g) = 1)"
proof -
  let ?g = "fold takeDamage amounts g"
  have r: "0 \<le> health ?g \<and> health ?g \<le> health g \<and>
      (isGameOver ?g \<longrightarrow> health ?g = 0) \<and>
      gameOverShown ?g = (if isGameOver ?g then 1 else 0) \<and>
      (amounts \<noteq> [] \<longrightarrow> isGameOver ?g = (health ?g = 0))"
    using assms by (intro takeDamage_run) simp_all
  have r2: "health (fold takeDamage later ?g) \<le> health ?g"
    using assms(2) r by (intro takeDamage_run[THEN conjunct2, THEN conjunct1]) simp_all
  have nil: "amounts = [] \<Longrightarrow> \<not> isGameOver ?g" using assms(4) by simp
  have p1: "0 \<le> health ?g" and p2: "health ?g \<le> health g" using r by simp_all
  have p3: "health (fold takeDamage (amounts @ later) g) \<le> health ?g" using r2 by simp
  have p5: "isGameOver ?g = (amounts \<noteq> [] \<and> health ?g = 0)" using r nil by blast
  have p4: "gameOverShown ?g = (if amounts \<noteq> [] \<and> health ?g = 0 then 1 else 0)"
    using r p5 by simp
  have p6: "health g = 100 \<longrightarrow>
            health (fold takeDamage (replicate 5 20) g) = 0 \<and>
            isGameOver (fold takeDamage (replicate 5 20) g) \<and>
            gameOverShown (fold takeDamage (replicate 5 20) g) = 1 \<and>
            gameOverShown (fold takeDamage (replicate 5 20 @ later) g) = 1"
  proof
    assume h: "health g = 100"
    let ?f = "fold takeDamage (replicate 5 20) g"
    have e: "replicate 5 (20::real) = [20, 20, 20, 20, 20]" by (simp add: numeral_eq_Suc)
    have f1: "health ?f = 0" unfolding e using h by (simp add: takeDamage_health)
    have f2: "isGameOver ?f" unfolding e using h
      by (simp add: takeDamage_health takeDamage_isGameOver)
    have f3: "gameOverShown ?f = 1" unfolding e using h assms(4,5)
      by (simp add: takeDamage_health takeDamage_isGameOver takeDamage_gameOverShown)
    have "gameOverShown (fold takeDamage later ?f) = gameOverShown ?f"
      using f2 by (simp add: takeDamage_after_game_over)
    then have f4: "gameOverShown (fold takeDamage (replicate 5 20 @ later) g) = 1"
      using f3 by simp
    from f1 f2 f3 f4 show "health ?f = 0 \<and> isGameOver ?f \<and> gameOverShown ?f = 1 \<and>
       gameOverShown (fold takeDamage (replicate 5 20 @ later) g) = 1" by blast
  qed
  from p1 p2 p3 p4 p5 p6 show ?thesis by blast
qed

theorem takeDamage_game_over_once_witness:
  "health (fold takeDamage [20, 20, 20, 20, 20] (initializeGameProperties 0 [])) = 0 \<and>
   gameOverShown (fold takeDamage [20, 20, 20, 20, 20] (initializeGameProperties 0 [])) = 1 \<and>
   gameOverShown (fold takeDamage ([20, 20, 20, 20, 20] @ [20, 20]) (initializeGameProperties 0 [])) = 1 \<and>
   gameOverShown (fold takeDamage [20, 20] (initializeGameProperties 0 [])) = 0 \<and>
   health (fold takeDamage [20, 20] (initializeGameProperties 0 [])) = 60"
proof -
  have e: "replicate 5 (20::real) = [20, 20, 20, 20, 20]" by (simp add: numeral_eq_Suc)
  have a: "\<forall>a\<in>set [20, 20, 20, 20, 20 :: real]. 0 \<le> a" and b: "\<forall>a\<in>set [20, 20 :: real]. 0 \<le> a"
    by simp_all
  have c: "0 \<le> health (initializeGameProperties 0 [])"
    and d: "\<not> isGameOver (initializeGameProperties 0 [])"
    and f: "gameOverShown (initializeGameProperties 0 []) = 0"
    and h: "health (initializeGameProperties 0 []) = 100"
    by (simp_all add: initializeGameProperties_def)
  have s: "health (fold takeDamage [20, 20] (initializeGameProperties 0 [])) = 60"
    by (simp add: takeDamage_health h)
  show ?thesis
    using takeDamage_game_over_once [OF a b c d f] takeDamage_game_over_once [OF b b c d f] h s
    unfolding e by simp
qed

section \<open>Difficulty, spawning and the threat display\<close>

lemma updateDifficulty_difficulty:
  "difficulty (updateDifficulty now g) =
     min 10 (1 + \<lfloor>real_of_int (now - startTime g) / 1000 / 30\<rfloor>)"
  by (simp add: updateDifficulty_def Let_def)

lemma floor_ms: "\<lfloor>real_of_int k / 1000 / 30\<rfloor> = k div 30000"
proof -
  have "real_of_int k / 1000 / 30 = real_of_int k / real_of_int 30000" by simp
  then show ?thesis by (simp only: floor_divide_of_int_eq)
qed

text \<open>
  Claim C5. For every clock reading \<open>now\<close>, with \<open>t = (now - startTime) / 1000\<close> the
  elapsed seconds, \<open>updateDifficulty\<close> sets the difficulty to \<open>min(10, 1 + floor(t / 30))\<close>,
  the game speed to \<open>1 + difficulty * 0.1\<close>, the spawn interval to
  \<open>max(1000, 3000 - difficulty * 200)\<close> milliseconds and the enemy cap to
  \<open>5 + floor(difficulty / 2)\<close>. In whole milliseconds, the difficulty is
  \<open>min(10, 1 + (now - startTime) div 30000)\<close>. At 65 seconds the difficulty is 3 and the
  spawn interval 2400 ms.
\<close>

theorem updateDifficulty_formulas:
  "difficulty (updateDifficulty now g) =
     min 10 (1 + \<lfloor>(real_of_int (now - startTime g) / 1000) / 30\<rfloor>) \<and>
   difficulty (updateDifficulty now g) = min 10 (1 + (now - startTime g) div 30000) \<and>
   gameSpeed (updateDifficulty now g) =
     1 + real_of_int (difficulty (updateDifficulty now g)) * (1 / 10) \<and>
   landerSpawnInterval (updateDifficulty now g) =
     max 1000 (3000 - difficulty (updateDifficulty now g) * 200) \<and>
   maxEnemies (updateDifficulty now g) =
     5 + \<lfloor>real_of_int (difficulty (updateDifficulty now g)) / 2\<rfloor> \<and>
   difficulty (updateDifficulty (startTime g + 65000) g) = 3 \<and>
   landerSpawnInterval (updateDifficulty (startTime g + 65000) g) = 2400"
proof -
  have d: "difficulty (updateDifficulty now g) =
     min 10 (1 + \<lfloor>(real_of_int (now - startTime g) / 1000) / 30\<rfloor>)"
    by (simp add: updateDifficulty_def Let_def)
  have d': "difficulty (updateDifficulty now g) = min 10 (1 + (now - startTime g) div 30000)"
    unfolding d floor_ms ..
  have s: "gameSpeed (updateDifficulty now g) =
     1 + real_of_int (difficulty (updateDifficulty now g)) * (1 / 10)"
    by (simp add: updateDifficulty_def Let_def)
  have i: "landerSpawnInterval (updateDifficulty now g) =
     max 1000 (3000 - difficulty (updateDifficulty now g) * 200)"
    by (simp add: updateDifficulty_def Let_def)
  have m: "maxEnemies (updateDifficulty now g) =
     5 + \<lfloor>real_of_int (difficulty (updateDifficulty now g)) / 2\<rfloor>"
    by (simp add: updateDifficulty_def Let_def)
  have e: "difficulty (updateDifficulty (startTime g + 65000) g) = 3"
    by (simp add: updateDifficulty_def Let_def)
  have f: "landerSpawnInterval (updateDifficulty (startTime g + 65000) g) = 2400"
    by (simp add: updateDifficulty_def Let_def)
  from d d' s i m e f show ?thesis by blast
qed

text \<open>
  Claim C9. For two clock readings \<open>now1 \<le> now2\<close> of the same mission (the same
  \<open>startTime\<close>), the difficulty computed at \<open>now1\<close> is at most the one computed at
  \<open>now2\<close>, and the computed difficulty is never more than 10.
\<close>

theorem updateDifficulty_monotone:
  assumes "startTime g1 = startTime g2" and "now1 \<le> now2"
  shows "difficulty (updateDifficulty now1 g1) \<le> difficulty (updateDifficulty now2 g2) \<and>
         difficulty (updateDifficulty now2 g2) \<le> 10"
proof -
  have "real_of_int (now1 - startTime g1) / 1000 / 30 \<le> real_of_int (now2 - startTime g2) / 1000 / 30"
    using assms by (simp add: divide_right_mono)
  then have "\<lfloor>real_of_int (now1 - startTime g1) / 1000 / 30\<rfloor>
           \<le> \<lfloor>real_of_int (now2 - startTime g2) / 1000 / 30\<rfloor>"
    by (rule floor_mono)
  then show ?thesis
    unfolding updateDifficulty_difficulty by simp
qed

theorem updateDifficulty_monotone_witness:
  "difficulty (updateDifficulty 29999 (initializeGameProperties 0 [])) = 1 \<and>
   difficulty (updateDifficulty 30000 (initializeGameProperties 0 [])) = 2 \<and>
   difficulty (updateDifficulty 29999 (initializeGameProperties 0 []))
     \<le> difficulty (updateDifficulty 30000 (initializeGameProperties 0 [])) \<and>
   difficulty (updateDifficulty 30000 (initializeGameProperties 0 [])) \<le> 10"
  using updateDifficulty_monotone [of "initializeGameProperties 0 []" "initializeGameProperties 0 []" 29999 30000]
  by (simp add: updateDifficulty_difficulty initializeGameProperties_def)

text \<open>
  Claim C7. In the spawn step of a tick (the scene exists, \<open>Math.random()\<close> gives a value
  in \<open>[0, 1)\<close>), a lander is added exactly when
  \<open>currentTime - lastLanderSpawn > landerSpawnInterval\<close>, strictly. The new lander is
  appended with x-coordinate 400 and z-coordinate in \<open>[-400, 400)\<close>, and
  \<open>lastLanderSpawn\<close> becomes \<open>currentTime\<close>. Otherwise the step leaves the whole state,
  and so the landers, as they were.
\<close>

theorem update_spawn_timing:
  assumes "sceneReady g" and "0 \<le> rnd" and "rnd < 1"
  shows "(currentTime - lastLanderSpawn g > landerSpawnInterval g \<longrightarrow>
            landers (update_spawn currentTime rnd g) =
              landers g @ [Lander_new \<lparr>vx = 400, vy = 0, vz = rnd * 800 - 400\<rparr>] \<and>
            vx (position (last (landers (update_spawn currentTime rnd g)))) = 400 \<and>
            - 400 \<le> vz (position (last (landers (update_spawn currentTime rnd g)))) \<and>
            vz (position (last (landers (update_spawn currentTime rnd g)))) < 400 \<and>
            lastLanderSpawn (update_spawn currentTime rnd g) = currentTime) \<and>
         (\<not> currentTime - lastLanderSpawn g > landerSpawnInterval g \<longrightarrow>
            update_spawn currentTime rnd g = g) \<and>
         (length (landers (update_spawn currentTime rnd g)) = length (landers g) + 1
            \<longleftrightarrow> currentTime - lastLanderSpawn g > landerSpawnInterval g)"
  using assms by (simp add: update_spawn_def spawnLander_def Lander_new_def Let_def)

theorem update_spawn_timing_witness:
  "landers (update_spawn 3001 (1 / 2) (initializeGameProperties 0 [])) =
     [Lander_new \<lparr>vx = 400, vy = 0, vz = 0\<rparr>] \<and>
   lastLanderSpawn (update_spawn 3001 (1 / 2) (initializeGameProperties 0 [])) = 3001 \<and>
   update_spawn 3000 (1 / 2) (initializeGameProperties 0 []) = initializeGameProperties 0 []"
proof -
  have a: "sceneReady (initializeGameProperties 0 [])" by (simp add: initializeGameProperties_def)
  show ?thesis
    using update_spawn_timing [OF a, of "1 / 2" 3001] update_spawn_timing [OF a, of "1 / 2" 3000]
    by (simp add: initializeGameProperties_def)
qed

lemma Min_insert_absorb:
  fixes m d :: real
  assumes "finite S" and "m \<le> d"
  shows "Min (insert m (insert d S)) = Min (insert m S)"
proof (cases "S = {}")
  case True
  then show ?thesis using assms by (simp add: min_def)
next
  case False
  then have "Min (insert m (insert d S)) = min m (min d (Min S))"
    using assms by simp
  also have "\<dots> = min m (Min S)" using assms(2) by (simp add: min_def)
  also have "\<dots> = Min (insert m S)" using assms(1) False by simp
  finally show ?thesis .
qed

lemma closest_scan_Min:
  "closest_scan c ls acc =
     (case acc of
        Infinity \<Rightarrow> if ls = [] then Infinity
                    else Finite (Min ((\<lambda>l. Distance c (position l)) ` set ls))
      | Finite m \<Rightarrow> Finite (Min (insert m ((\<lambda>l. Distance c (position l)) ` set ls))))"
proof (induction ls arbitrary: acc)
  case Nil
  then show ?case by (simp split: number.split)
next
  case (Cons l ls)
  let ?d = "Distance c (position l)"
  let ?S = "(\<lambda>l. Distance c (position l)) ` set ls"
  have fin: "finite ?S" by simp
  show ?case
  proof (cases acc)
    case Infinity
    then show ?thesis by (simp add: Cons.IH Let_def)
  next
    case (Finite m)
    show ?thesis
    proof (cases "?d < m")
      case True
      then have "Min (insert ?d (insert m ?S)) = Min (insert ?d ?S)"
        using fin by (intro Min_insert_absorb) simp_all
      then have "Min (insert m (insert ?d ?S)) = Min (insert ?d ?S)"
        by (simp add: insert_commute)
      then show ?thesis using Finite True by (simp add: Cons.IH Let_def)
    next
      case False
      then have "Min (insert m (insert ?d ?S)) = Min (insert m ?S)"
        using fin by (intro Min_insert_absorb) simp_all
      then show ?thesis using Finite False by (simp add: Cons.IH Let_def)
    qed
  qed
qed

text \<open>
  Claim C10. With no landers, \<open>getClosestLanderDistance\<close> returns 0, not \<open>Infinity\<close>;
  with at least one lander it returns the least Euclidean distance from the camera position
  to a lander.
\<close>

theorem getClosestLanderDistance_spec:
  "(landers g = [] \<longrightarrow> getClosestLanderDistance g = Finite 0) \<and>
   (landers g \<noteq> [] \<longrightarrow>
      getClosestLanderDistance g =
        Finite (Min ((\<lambda>l. Distance (cameraPosition g) (position l)) ` set (landers g))))"
  by (simp add: getClosestLanderDistance_def closest_scan_Min)

theorem getClosestLanderDistance_spec_witness:
  "getClosestLanderDistance (initializeGameProperties 0 []) = Finite 0 \<and>
   getClosestLanderDistance
     ((initializeGameProperties 0 [])
        \<lparr>landers := [Lander_new \<lparr>vx = 3, vy = 10, vz = - 4\<rparr>, Lander_new \<lparr>vx = 0, vy = 10, vz = - 6\<rparr>],
         cameraPosition := \<lparr>vx = 0, vy = 10, vz = - 8\<rparr>\<rparr>) = Finite 2"
  using getClosestLanderDistance_spec [of "initializeGameProperties 0 []"]
    getClosestLanderDistance_spec [of "(initializeGameProperties 0 [])
        \<lparr>landers := [Lander_new \<lparr>vx = 3, vy = 10, vz = - 4\<rparr>, Lander_new \<lparr>vx = 0, vy = 10, vz = - 6\<rparr>],
         cameraPosition := \<lparr>vx = 0, vy = 10, vz = - 8\<rparr>\<rparr>"]
  by (simp add: initializeGameProperties_def Lander_new_def Distance_def)

section \<open>Lander steering: nearest astronaut\<close>

lemma planar_Distance:
  "Distance \<lparr>vx = vx p, vy = 0, vz = vz p\<rparr> \<lparr>vx = vx q, vy = 0, vz = vz q\<rparr> = planarDistance p q"
  by (simp add: Distance_def planarDistance_def)

lemma nearest_scan_Finite:
  "(nearest_scan l crew (n, Finite m) = (n, Finite m) \<and>
      (\<forall>a\<in>set crew. m \<le> planarDistance (position l) (position a))) \<or>
   (\<exists>i<length crew.
      nearest_scan l crew (n, Finite m) =
        (Some (crew ! i), Finite (planarDistance (position l) (position (crew ! i)))) \<and>
      planarDistance (position l) (position (crew ! i)) < m \<and>
      (\<forall>j<length crew. planarDistance (position l) (position (crew ! i))
                          \<le> planarDistance (position l) (position (crew ! j))) \<and>
      (\<forall>j<i. planarDistance (position l) (position (crew ! i))
                 < planarDistance (position l) (position (crew ! j))))"
  (is "?keep crew n m \<or> ?take crew n m")
proof (induction crew arbitrary: n m)
  case Nil
  then show ?case by simp
next
  case (Cons a crew)
  let ?pd = "\<lambda>x. planarDistance (position l) (position x)"
  show ?case
  proof (cases "?pd a < m")
    case True
    then have step: "nearest_scan l (a # crew) (n, Finite m) = nearest_scan l crew (Some a, Finite (?pd a))"
      by (simp add: planar_Distance Let_def)
    from Cons.IH[of "Some a" "?pd a"] show ?thesis
    proof
      assume k: "?keep crew (Some a) (?pd a)"
      have "0 < length (a # crew)" by simp
      moreover have "nearest_scan l (a # crew) (n, Finite m) = (Some ((a # crew) ! 0), Finite (?pd ((a # crew) ! 0)))"
        using k step by simp
      moreover have "?pd ((a # crew) ! 0) < m" using True by simp
      moreover have "\<forall>j<length (a # crew). ?pd ((a # crew) ! 0) \<le> ?pd ((a # crew) ! j)"
      proof (intro allI impI)
        fix j assume "j < length (a # crew)"
        then show "?pd ((a # crew) ! 0) \<le> ?pd ((a # crew) ! j)"
          using k by (cases j) simp_all
      qed
      ultimately have "?take (a # crew) n m" by blast
      then show ?thesis ..
    next
      assume "?take crew (Some a) (?pd a)"
      then obtain i where i: "i < length crew"
        and r: "nearest_scan l crew (Some a, Finite (?pd a)) = (Some (crew ! i), Finite (?pd (crew ! i)))"
        and lt: "?pd (crew ! i) < ?pd a"
        and mn: "\<forall>j<length crew. ?pd (crew ! i) \<le> ?pd (crew ! j)"
        and st: "\<forall>j<i. ?pd (crew ! i) < ?pd (crew ! j)"
        by blast
      have "Suc i < length (a # crew)" using i by simp
      moreover have "nearest_scan l (a # crew) (n, Finite m) =
          (Some ((a # crew) ! Suc i), Finite (?pd ((a # crew) ! Suc i)))"
        using r step by simp
      moreover have "?pd ((a # crew) ! Suc i) < m" using lt True by simp
      moreover have "\<forall>j<length (a # crew). ?pd ((a # crew) ! Suc i) \<le> ?pd ((a # crew) ! j)"
      proof (intro allI impI)
        fix j assume "j < length (a # crew)"
        then show "?pd ((a # crew) ! Suc i) \<le> ?pd ((a # crew) ! j)"
          using mn lt by (cases j) simp_all
      qed
      moreover have "\<forall>j<Suc i. ?pd ((a # crew) ! Suc i) < ?pd ((a # crew) ! j)"
      proof (intro allI impI)
        fix j assume "j < Suc i"
        then show "?pd ((a # crew) ! Suc i) < ?pd ((a # crew) ! j)"
          using st lt by (cases j) simp_all
      qed
      ultimately have "?take (a # crew) n m" by blast
      then show ?thesis ..
    qed
  next
    case False
    then have step: "nearest_scan l (a # crew) (n, Finite m) = nearest_scan l crew (n, Finite m)"
      by (simp add: planar_Distance Let_def)
    from Cons.IH[of n m] show ?thesis
    proof
      assume "?keep crew n m"
      then have "?keep (a # crew) n m" using step False by simp
      then show ?thesis ..
    next
      assume "?take crew n m"
      then obtain i where i: "i < length crew"
        and r: "nearest_scan l crew (n, Finite m) = (Some (crew ! i), Finite (?pd (crew ! i)))"
        and lt: "?pd (crew ! i) < m"
        and mn: "\<forall>j<length crew. ?pd (crew ! i) \<le> ?pd (crew ! j)"
        and st: "\<forall>j<i. ?pd (crew ! i) < ?pd (crew ! j)"
        by blast
      have "Suc i < length (a # crew)" using i by simp
      moreover have "nearest_scan l (a # crew) (n, Finite m) =
          (Some ((a # crew) ! Suc i), Finite (?pd ((a # crew) ! Suc i)))"
        using r step by simp
      moreover have "?pd ((a # crew) ! Suc i) < m" using lt by simp
      moreover have "\<forall>j<length (a # crew). ?pd ((a # crew) ! Suc i) \<le> ?pd ((a # crew) ! j)"
      proof (intro allI impI)
        fix j assume "j < length (a # crew)"
        then show "?pd ((a # crew) ! Suc i) \<le> ?pd ((a # crew) ! j)"
          using mn lt False by (cases j) simp_all
      qed
      moreover have "\<forall>j<Suc i. ?pd ((a # crew) ! Suc i) < ?pd ((a # crew) ! j)"
      proof (intro allI impI)
        fix j assume "j < Suc i"
        then show "?pd ((a # crew) ! Suc i) < ?pd ((a # crew) ! j)"
          using st lt False by (cases j) simp_all
      qed
      ultimately have "?take (a # crew) n m" by blast
      then show ?thesis ..
    qed
  qed
qed

lemma nearest_scan_first_minimum:
  assumes "crew \<noteq> []"
  shows "\<exists>i<length crew.
      fst (nearest_scan l crew (None, Infinity)) = Some (crew ! i) \<and>
      (\<forall>j<length crew. planarDistance (position l) (position (crew ! i))
                          \<le> planarDistance (position l) (position (crew ! j))) \<and>
      (\<forall>j<i. planarDistance (position l) (position (crew ! i))
                 < planarDistance (position l) (position (crew ! j)))"
proof -
  let ?pd = "\<lambda>x. planarDistance (position l) (position x)"
  from assms obtain a rest where c: "crew = a # rest" by (cases crew) auto
  have step: "nearest_scan l crew (None, Infinity) = nearest_scan l rest (Some a, Finite (?pd a))"
    by (simp add: c planar_Distance Let_def)
  from nearest_scan_Finite[of l rest "Some a" "?pd a"] show ?thesis
  proof
    assume k: "nearest_scan l rest (Some a, Finite (?pd a)) = (Some a, Finite (?pd a)) \<and>
      (\<forall>x\<in>set rest. ?pd a \<le> ?pd x)"
    have "0 < length crew" using c by simp
    moreover have "fst (nearest_scan l crew (None, Infinity)) = Some (crew ! 0)"
      using k step c by simp
    moreover have "\<forall>j<length crew. ?pd (crew ! 0) \<le> ?pd (crew ! j)"
    proof (intro allI impI)
      fix j assume "j < length crew"
      then show "?pd (crew ! 0) \<le> ?pd (crew ! j)" using k c by (cases j) simp_all
    qed
    ultimately show ?thesis by blast
  next
    assume "\<exists>i<length rest.
      nearest_scan l rest (Some a, Finite (?pd a)) = (Some (rest ! i), Finite (?pd (rest ! i))) \<and>
      ?pd (rest ! i) < ?pd a \<and>
      (\<forall>j<length rest. ?pd (rest ! i) \<le> ?pd (rest ! j)) \<and>
      (\<forall>j<i. ?pd (rest ! i) < ?pd (rest ! j))"
    then obtain i where i: "i < length rest"
      and r: "nearest_scan l rest (Some a, Finite (?pd a)) = (Some (rest ! i), Finite (?pd (rest ! i)))"
      and lt: "?pd (rest ! i) < ?pd a"
      and mn: "\<forall>j<length rest. ?pd (rest ! i) \<le> ?pd (rest ! j)"
      and st: "\<forall>j<i. ?pd (rest ! i) < ?pd (rest ! j)"
      by blast
    have "Suc i < length crew" using i c by simp
    moreover have "fst (nearest_scan l crew (None, Infinity)) = Some (crew ! Suc i)"
      using r step c by simp
    moreover have "\<forall>j<length crew. ?pd (crew ! Suc i) \<le> ?pd (crew ! j)"
    proof (intro allI impI)
      fix j assume "j < length crew"
      then show "?pd (crew ! Suc i) \<le> ?pd (crew ! j)" using mn lt c by (cases j) simp_all
    qed
    moreover have "\<forall>j<Suc i. ?pd (crew ! Suc i) < ?pd (crew ! j)"
    proof (intro allI impI)
      fix j assume "j < Suc i"
      then show "?pd (crew ! Suc i) < ?pd (crew ! j)" using st lt c by (cases j) simp_all
    qed
    ultimately show ?thesis by blast
  qed
qed

lemma Lander_update_empty:
  "Lander_update gz [] l = l\<lparr>position := (position l)\<lparr>vz := initialZ l + gz\<rparr>\<rparr>"
  by (simp add: Lander_update_def)

lemma Lander_update_vz: "vz (position (Lander_update gz crew l)) = initialZ l + gz"
  by (simp add: Lander_update_def Let_def split: option.split)

lemma Lander_update_vy: "vy (position (Lander_update gz crew l)) = vy (position l)"
  by (simp add: Lander_update_def Let_def split: option.split)

lemma Lander_update_vx:
  "fst (nearest_scan (l\<lparr>position := (position l)\<lparr>vz := initialZ l + gz\<rparr>\<rparr>) crew (None, Infinity)) = Some a \<Longrightarrow>
   vx (position (Lander_update gz crew l)) =
     vx (position l) +
     vx (normalize_vec (subtract (position a) ((position l)\<lparr>vz := initialZ l + gz\<rparr>))) * speed l"
  by (simp add: Lander_update_def Let_def)

lemma sqrt_154600: "sqrt 154600 < 400" "390 < sqrt 154600"
  by (simp_all add: real_less_lsqrt real_less_rsqrt)

lemma scenario_nearest:
  "fst (nearest_scan (Lander_new \<lparr>vx = 400, vy = 0, vz = 0\<rparr>)
          [\<lparr>position = \<lparr>vx = 0, vy = 0, vz = 0\<rparr>, initialZ = 0, initialX = 0\<rparr>,
           \<lparr>position = \<lparr>vx = 10, vy = 0, vz = 50\<rparr>, initialZ = 50, initialX = 10\<rparr>]
          (None, Infinity))
   = Some \<lparr>position = \<lparr>vx = 10, vy = 0, vz = 50\<rparr>, initialZ = 50, initialX = 10\<rparr>"
  using sqrt_154600 by (simp add: Lander_new_def Distance_def Let_def)

lemma scenario_update:
  "vx (position (Lander_update 0
          [\<lparr>position = \<lparr>vx = 0, vy = 0, vz = 0\<rparr>, initialZ = 0, initialX = 0\<rparr>,
           \<lparr>position = \<lparr>vx = 10, vy = 0, vz = 50\<rparr>, initialZ = 50, initialX = 10\<rparr>]
          (Lander_new \<lparr>vx = 400, vy = 0, vz = 0\<rparr>)))
   = 400 - 117 / sqrt 154600"
proof -
  have l1: "(Lander_new \<lparr>vx = 400, vy = 0, vz = 0\<rparr>)
      \<lparr>position := (position (Lander_new \<lparr>vx = 400, vy = 0, vz = 0\<rparr>))
         \<lparr>vz := initialZ (Lander_new \<lparr>vx = 400, vy = 0, vz = 0\<rparr>) + 0\<rparr>\<rparr>
     = Lander_new \<lparr>vx = 400, vy = 0, vz = 0\<rparr>"
    by (simp add: Lander_new_def)
  have n: "vlength (subtract \<lparr>vx = 10, vy = 0, vz = 50\<rparr> \<lparr>vx = 400, vy = 0, vz = 0\<rparr>) = sqrt 154600"
    by (simp add: vlength_def subtract_def)
  have nz: "sqrt 154600 \<noteq> 0" by simp
  have a: "fst (nearest_scan ((Lander_new \<lparr>vx = 400, vy = 0, vz = 0\<rparr>)
      \<lparr>position := (position (Lander_new \<lparr>vx = 400, vy = 0, vz = 0\<rparr>))
         \<lparr>vz := initialZ (Lander_new \<lparr>vx = 400, vy = 0, vz = 0\<rparr>) + 0\<rparr>\<rparr>)
          [\<lparr>position = \<lparr>vx = 0, vy = 0, vz = 0\<rparr>, initialZ = 0, initialX = 0\<rparr>,
           \<lparr>position = \<lparr>vx = 10, vy = 0, vz = 50\<rparr>, initialZ = 50, initialX = 10\<rparr>]
          (None, Infinity))
   = Some \<lparr>position = \<lparr>vx = 10, vy = 0, vz = 50\<rparr>, initialZ = 50, initialX = 10\<rparr>"
    unfolding l1 by (rule scenario_nearest)
  have p: "(position (Lander_new \<lparr>vx = 400, vy = 0, vz = 0\<rparr>))
         \<lparr>vz := initialZ (Lander_new \<lparr>vx = 400, vy = 0, vz = 0\<rparr>) + 0\<rparr> = \<lparr>vx = 400, vy = 0, vz = 0\<rparr>"
    by (simp add: Lander_new_def)
  have d: "vx (normalize_vec (subtract \<lparr>vx = 10, vy = 0, vz = 50\<rparr> \<lparr>vx = 400, vy = 0, vz = 0\<rparr>))
      = - 390 / sqrt 154600"
    using nz by (simp add: normalize_vec_def n) (simp add: scale_def subtract_def)
  show ?thesis
    unfolding Lander_update_vx[OF a] p
    by (simp add: d) (simp add: Lander_new_def)
qed

lemma vlength_nonneg: "0 \<le> vlength v"
  by (simp add: vlength_def)

lemma normalize_vx_sign: "0 \<le> vx (normalize_vec v) * vx v"
proof (cases "vlength v = 0")
  case True
  then show ?thesis by (simp add: normalize_vec_def)
next
  case False
  then have "vx (normalize_vec v) * vx v = (vx v)\<^sup>2 / vlength v"
    by (simp add: normalize_vec_def scale_def power2_eq_square)
  then show ?thesis using vlength_nonneg[of v] by simp
qed

text \<open>
  Claim C6, the scenario as the specification states it. A lander at \<open>(400, 0, 0)\<close> with
  astronauts at \<open>(0, 0, 0)\<close> and \<open>(10, 0, 50)\<close> does not steer toward the astronaut at 0:
  the search selects the astronaut at \<open>(10, 0, 50)\<close>, whose planar distance
  \<open>sqrt 154600\<close> (about 393.2) is less than 400, and the new x-coordinate is not the one
  that steering toward the astronaut at 0 would give.
\<close>

theorem Lander_update_scenario_counterexample:
  "fst (nearest_scan (Lander_new \<lparr>vx = 400, vy = 0, vz = 0\<rparr>)
          [\<lparr>position = \<lparr>vx = 0, vy = 0, vz = 0\<rparr>, initialZ = 0, initialX = 0\<rparr>,
           \<lparr>position = \<lparr>vx = 10, vy = 0, vz = 50\<rparr>, initialZ = 50, initialX = 10\<rparr>]
          (None, Infinity))
     = Some \<lparr>position = \<lparr>vx = 10, vy = 0, vz = 50\<rparr>, initialZ = 50, initialX = 10\<rparr> \<and>
   planarDistance \<lparr>vx = 400, vy = 0, vz = 0\<rparr> \<lparr>vx = 10, vy = 0, vz = 50\<rparr>
     < planarDistance \<lparr>vx = 400, vy = 0, vz = 0\<rparr> \<lparr>vx = 0, vy = 0, vz = 0\<rparr> \<and>
   vx (position (Lander_update 0
          [\<lparr>position = \<lparr>vx = 0, vy = 0, vz = 0\<rparr>, initialZ = 0, initialX = 0\<rparr>,
           \<lparr>position = \<lparr>vx = 10, vy = 0, vz = 50\<rparr>, initialZ = 50, initialX = 10\<rparr>]
          (Lander_new \<lparr>vx = 400, vy = 0, vz = 0\<rparr>)))
     \<noteq> 400 + vx (normalize_vec (subtract \<lparr>vx = 0, vy = 0, vz = 0\<rparr> \<lparr>vx = 400, vy = 0, vz = 0\<rparr>)) * (3 / 10)"
proof (intro conjI)
  show "fst (nearest_scan (Lander_new \<lparr>vx = 400, vy = 0, vz = 0\<rparr>)
          [\<lparr>position = \<lparr>vx = 0, vy = 0, vz = 0\<rparr>, initialZ = 0, initialX = 0\<rparr>,
           \<lparr>position = \<lparr>vx = 10, vy = 0, vz = 50\<rparr>, initialZ = 50, initialX = 10\<rparr>]
          (None, Infinity))
     = Some \<lparr>position = \<lparr>vx = 10, vy = 0, vz = 50\<rparr>, initialZ = 50, initialX = 10\<rparr>"
    by (rule scenario_nearest)
  show "planarDistance \<lparr>vx = 400, vy = 0, vz = 0\<rparr> \<lparr>vx = 10, vy = 0, vz = 50\<rparr>
     < planarDistance \<lparr>vx = 400, vy = 0, vz = 0\<rparr> \<lparr>vx = 0, vy = 0, vz = 0\<rparr>"
    using sqrt_154600 by (simp add: planarDistance_def)
  have t: "vx (normalize_vec (subtract \<lparr>vx = 0, vy = 0, vz = 0\<rparr> \<lparr>vx = 400, vy = 0, vz = 0\<rparr>)) = - 1"
    by (simp add: normalize_vec_def vlength_def subtract_def scale_def)
  have "117 / sqrt 154600 < 117 / 390"
    using sqrt_154600 by (intro divide_strict_left_mono) simp_all
  then have "400 - 117 / sqrt 154600 \<noteq> 400 + (- 1) * (3 / 10)" by simp
  then show "vx (position (Lander_update 0
          [\<lparr>position = \<lparr>vx = 0, vy = 0, vz = 0\<rparr>, initialZ = 0, initialX = 0\<rparr>,
           \<lparr>position = \<lparr>vx = 10, vy = 0, vz = 50\<rparr>, initialZ = 50, initialX = 10\<rparr>]
          (Lander_new \<lparr>vx = 400, vy = 0, vz = 0\<rparr>)))
     \<noteq> 400 + vx (normalize_vec (subtract \<lparr>vx = 0, vy = 0, vz = 0\<rparr> \<lparr>vx = 400, vy = 0, vz = 0\<rparr>)) * (3 / 10)"
    unfolding scenario_update t .
qed

text \<open>
  Claim C6, amended. \<open>Lander.update\<close> first sets the lander's z to
  \<open>initialZ + gamePlaneZ\<close>. With no astronauts the x-coordinate is unchanged. Otherwise
  there is an astronaut, at index \<open>i\<close>, that is nearest by planar distance from the
  lander's new position and comes first among the nearest ones, and x moves by
  \<open>speed\<close> times the x-component of the normalized direction to it, toward its
  x-coordinate; steering does not change z. A lander at \<open>(400, 0, 0)\<close> with astronauts at
  \<open>(0, 0, 0)\<close> and \<open>(10, 0, 50)\<close> steers toward the astronaut at \<open>(10, 0, 50)\<close>.
\<close>

theorem Lander_update_steering:
  "vz (position (Lander_update gz crew l)) = initialZ l + gz \<and>
   (crew = [] \<longrightarrow> vx (position (Lander_update gz crew l)) = vx (position l)) \<and>
   (crew \<noteq> [] \<longrightarrow>
      (\<exists>i<length crew.
         (\<forall>j<length crew.
            planarDistance ((position l)\<lparr>vz := initialZ l + gz\<rparr>) (position (crew ! i))
              \<le> planarDistance ((position l)\<lparr>vz := initialZ l + gz\<rparr>) (position (crew ! j))) \<and>
         (\<forall>j<i.
            planarDistance ((position l)\<lparr>vz := initialZ l + gz\<rparr>) (position (crew ! i))
              < planarDistance ((position l)\<lparr>vz := initialZ l + gz\<rparr>) (position (crew ! j))) \<and>
         vx (position (Lander_update gz crew l)) =
           vx (position l) +
           vx (normalize_vec (subtract (position (crew ! i)) ((position l)\<lparr>vz := initialZ l + gz\<rparr>)))
             * speed l \<and>
         (0 \<le> speed l \<longrightarrow>
            0 \<le> (vx (position (Lander_update gz crew l)) - vx (position l))
                 * (vx (position (crew ! i)) - vx (position l))))) \<and>
   vx (position (Lander_update 0
          [\<lparr>position = \<lparr>vx = 0, vy = 0, vz = 0\<rparr>, initialZ = 0, initialX = 0\<rparr>,
           \<lparr>position = \<lparr>vx = 10, vy = 0, vz = 50\<rparr>, initialZ = 50, initialX = 10\<rparr>]
          (Lander_new \<lparr>vx = 400, vy = 0, vz = 0\<rparr>)))
     = 400 + vx (normalize_vec (subtract \<lparr>vx = 10, vy = 0, vz = 50\<rparr> \<lparr>vx = 400, vy = 0, vz = 0\<rparr>)) * (3 / 10)"
proof (intro conjI impI)
  show "vz (position (Lander_update gz crew l)) = initialZ l + gz" by (rule Lander_update_vz)
next
  assume "crew = []"
  then show "vx (position (Lander_update gz crew l)) = vx (position l)"
    by (simp add: Lander_update_empty)
next
  assume ne: "crew \<noteq> []"
  let ?l1 = "l\<lparr>position := (position l)\<lparr>vz := initialZ l + gz\<rparr>\<rparr>"
  let ?p1 = "(position l)\<lparr>vz := initialZ l + gz\<rparr>"
  have p: "position ?l1 = ?p1" by simp
  from nearest_scan_first_minimum[OF ne, of ?l1] obtain i where i: "i < length crew"
    and n: "fst (nearest_scan ?l1 crew (None, Infinity)) = Some (crew ! i)"
    and mn: "\<forall>j<length crew. planarDistance ?p1 (position (crew ! i)) \<le> planarDistance ?p1 (position (crew ! j))"
    and st: "\<forall>j<i. planarDistance ?p1 (position (crew ! i)) < planarDistance ?p1 (position (crew ! j))"
    unfolding p by blast
  have x: "vx (position (Lander_update gz crew l)) =
      vx (position l) + vx (normalize_vec (subtract (position (crew ! i)) ?p1)) * speed l"
    by (rule Lander_update_vx[OF n])
  have sgn: "0 \<le> speed l \<longrightarrow>
      0 \<le> (vx (position (Lander_update gz crew l)) - vx (position l))
           * (vx (position (crew ! i)) - vx (position l))"
  proof
    assume s: "0 \<le> speed l"
    have "0 \<le> vx (normalize_vec (subtract (position (crew ! i)) ?p1)) * vx (subtract (position (crew ! i)) ?p1)"
      by (rule normalize_vx_sign)
    then have "0 \<le> vx (normalize_vec (subtract (position (crew ! i)) ?p1)) * (vx (position (crew ! i)) - vx (position l))"
      by (simp add: subtract_def)
    then have "0 \<le> speed l * (vx (normalize_vec (subtract (position (crew ! i)) ?p1))
         * (vx (position (crew ! i)) - vx (position l)))"
      using s by (rule mult_nonneg_nonneg[rotated])
    then show "0 \<le> (vx (position (Lander_update gz crew l)) - vx (position l))
           * (vx (position (crew ! i)) - vx (position l))"
      unfolding x by (simp add: mult_ac)
  qed
  from i mn st x sgn show "\<exists>i<length crew.
         (\<forall>j<length crew.
            planarDistance ?p1 (position (crew ! i)) \<le> planarDistance ?p1 (position (crew ! j))) \<and>
         (\<forall>j<i.
            planarDistance ?p1 (position (crew ! i)) < planarDistance ?p1 (position (crew ! j))) \<and>
         vx (position (Lander_update gz crew l)) =
           vx (position l) + vx (normalize_vec (subtract (position (crew ! i)) ?p1)) * speed l \<and>
         (0 \<le> speed l \<longrightarrow>
            0 \<le> (vx (position (Lander_update gz crew l)) - vx (position l))
                 * (vx (position (crew ! i)) - vx (position l)))"
    by blast
next
  have nz: "sqrt 154600 \<noteq> 0" by simp
  have n: "vlength (subtract \<lparr>vx = 10, vy = 0, vz = 50\<rparr> \<lparr>vx = 400, vy = 0, vz = 0\<rparr>) = sqrt 154600"
    by (simp add: vlength_def subtract_def)
  have d: "vx (normalize_vec (subtract \<lparr>vx = 10, vy = 0, vz = 50\<rparr> \<lparr>vx = 400, vy = 0, vz = 0\<rparr>))
      = - 390 / sqrt 154600"
    using nz by (simp add: normalize_vec_def n) (simp add: scale_def subtract_def)
  show "vx (position (Lander_update 0
          [\<lparr>position = \<lparr>vx = 0, vy = 0, vz = 0\<rparr>, initialZ = 0, initialX = 0\<rparr>,
           \<lparr>position = \<lparr>vx = 10, vy = 0, vz = 50\<rparr>, initialZ = 50, initialX = 10\<rparr>]
          (Lander_new \<lparr>vx = 400, vy = 0, vz = 0\<rparr>)))
     = 400 + vx (normalize_vec (subtract \<lparr>vx = 10, vy = 0, vz = 50\<rparr> \<lparr>vx = 400, vy = 0, vz = 0\<rparr>)) * (3 / 10)"
    unfolding scenario_update d by simp
qed

theorem Lander_update_steering_witness:
  "vz (position (Lander_update 7 [] (Lander_new \<lparr>vx = 400, vy = 0, vz = 5\<rparr>))) = 12 \<and>
   vx (position (Lander_update 7 [] (Lander_new \<lparr>vx = 400, vy = 0, vz = 5\<rparr>))) = 400 \<and>
   vx (position (Lander_update 0
          [\<lparr>position = \<lparr>vx = 0, vy = 0, vz = 0\<rparr>, initialZ = 0, initialX = 0\<rparr>]
          (Lander_new \<lparr>vx = 400, vy = 0, vz = 0\<rparr>))) = 400 - 3 / 10"
proof -
  have t: "vx (normalize_vec (subtract \<lparr>vx = 0, vy = 0, vz = 0\<rparr> \<lparr>vx = 400, vy = 0, vz = 0\<rparr>)) = - 1"
    by (simp add: normalize_vec_def vlength_def subtract_def scale_def)
  show ?thesis
    using Lander_update_steering [of 7 "[]" "Lander_new \<lparr>vx = 400, vy = 0, vz = 5\<rparr>"]
      Lander_update_steering [of 0 "[\<lparr>position = \<lparr>vx = 0, vy = 0, vz = 0\<rparr>, initialZ = 0, initialX = 0\<rparr>]"
         "Lander_new \<lparr>vx = 400, vy = 0, vz = 0\<rparr>"]
    by (simp add: Lander_new_def t)
qed

section \<open>Health and energy stay within their bounds\<close>

lemma resources_ok_cong: "resources g' = resources g \<Longrightarrow> resources_ok g' = resources_ok g"
  by (simp add: resources_def resources_ok_def)

lemma resources_updateLasers_from: "resources (updateLasers_from hit n g) = resources g"
  by (induction n arbitrary: g)
     (simp_all add: Let_def updateLandersDestroyed_def updateScore_def resources_def
        split: option.split)

lemma scanDown_throwing_Lander:
  "scanDown_throwing (\<lambda>lander. checkObjectCollision obj (LanderObject lander)) xs n =
     (if n = 0 then Inr None else Inl TypeError)"
  by (cases n) (simp_all add: checkObjectCollision_def split: option.split)

lemma checkCollisions_from_eq:
  "checkCollisions_from n g =
     (if n = 0 \<or> landers g = [] then Inr g else Inl (TypeError, g))"
  by (induction n arbitrary: g) (simp_all add: scanDown_throwing_Lander Let_def)

lemma checkCollisions_eq:
  "checkCollisions g = (if lasers g = [] \<or> landers g = [] then Inr g else Inl (TypeError, g))"
  by (simp add: checkCollisions_def checkCollisions_from_eq)

lemma resources_updateAstronauts_from: "resources (updateAstronauts_from n g) = resources g"
  by (induction n arbitrary: g)
     (simp_all add: Let_def updateScore_def resources_def)

lemma resources_ok_takeDamage:
  "resources_ok g \<Longrightarrow> 0 \<le> a \<Longrightarrow> resources_ok (takeDamage a g)"
  by (simp add: resources_ok_def takeDamage_def showGameOver_def Let_def)

lemma resources_ok_landers_update [simp]: "resources_ok (g\<lparr>landers := ls\<rparr>) = resources_ok g"
  by (simp add: resources_ok_def)

lemma resources_ok_astronauts_update [simp]: "resources_ok (g\<lparr>astronauts := as\<rparr>) = resources_ok g"
  by (simp add: resources_ok_def)

lemma resources_ok_updateLanders_from:
  "resources_ok g \<Longrightarrow> resources_ok (updateLanders_from touch n g)"
proof (induction n arbitrary: g)
  case 0
  then show ?case by simp
next
  case (Suc i)
  let ?lander = "Lander_update (gamePlaneZ g) (astronauts g) (landers g ! i)"
  let ?g1 = "g\<lparr>landers := (landers g)[i := ?lander]\<rparr>"
  have ok1: "resources_ok ?g1" using Suc.prems by simp
  have ok2: "resources_ok ((takeDamage 20 ?g1)\<lparr>landers := splice1 i (landers (takeDamage 20 ?g1))\<rparr>)"
    using resources_ok_takeDamage[OF ok1, of 20] by simp
  have ok3: "resources_ok (?g1\<lparr>landers := splice1 i (landers ?g1)\<rparr>)" using ok1 by simp
  show ?case
    using Suc.IH[OF ok1] Suc.IH[OF ok2] Suc.IH[OF ok3] ok1
    by (simp add: Let_def split: option.split)
qed

lemma resources_ok_reachable: "g \<in> reachable hit touch \<Longrightarrow> resources_ok g"
proof (induction rule: reachable.induct)
  case (r_init now crew)
  show ?case by (simp add: resources_ok_def initializeGameProperties_def)
next
  case (r_start g now)
  then show ?case by (simp add: resources_ok_def start_def)
next
  case (r_spawn g rnd now)
  then show ?case by (simp add: resources_ok_def update_spawn_def spawnLander_def Let_def)
next
  case (r_energy g)
  then show ?case by (simp add: resources_ok_def update_energy_def)
next
  case (r_thrusters g q e deltaTime)
  then show ?case by (simp add: resources_ok_def updateMovement_thrusters_def)
next
  case (r_shoot g forward)
  then show ?case by (simp add: resources_ok_def shootLaser_def)
next
  case (r_lasers g)
  then show ?case
    by (simp add: updateLasers_def resources_ok_cong[OF resources_updateLasers_from])
next
  case (r_landers g)
  then show ?case by (simp add: updateLanders_def resources_ok_updateLanders_from)
next
  case (r_damage g amount)
  then show ?case by (simp add: resources_ok_takeDamage)
next
  case (r_collisions g)
  then show ?case by (simp add: checkCollisions_eq resources_ok_def)
next
  case (r_astronauts g)
  then show ?case
    by (simp add: updateAstronauts_def resources_ok_cong[OF resources_updateAstronauts_from])
next
  case (r_difficulty g now)
  then show ?case by (simp add: resources_ok_def updateDifficulty_def Let_def)
next
  case (r_other g p z v b crew ls las sc)
  then show ?case by (simp add: resources_ok_def)
qed

text \<open>
  Claim C1. In every reachable state, that is after any number of ticks made of energy
  recharge, thruster drain, damage, shots and the entity updates, in any order, the health is
  between 0 and \<open>maxHealth\<close> and the energy between 0 and \<open>maxEnergy\<close>.
\<close>

theorem health_energy_bounds:
  assumes "g \<in> reachable hit touch"
  shows "0 \<le> health g \<and> health g \<le> maxHealth g \<and> 0 \<le> energy g \<and> energy g \<le> maxEnergy g"
  using resources_ok_reachable[OF assms] by (simp add: resources_ok_def)

theorem health_energy_bounds_witness:
  "takeDamage 20 (updateMovement_thrusters True False (1 / 60)
      (update_energy (shootLaser \<lparr>vx = 0, vy = 0, vz = 1\<rparr> (initializeGameProperties 0 []))))
     \<in> reachable (\<lambda>l a. False) (\<lambda>l a. False) \<and>
   health (takeDamage 20 (updateMovement_thrusters True False (1 / 60)
      (update_energy (shootLaser \<lparr>vx = 0, vy = 0, vz = 1\<rparr> (initializeGameProperties 0 []))))) = 80 \<and>
   energy (takeDamage 20 (updateMovement_thrusters True False (1 / 60)
      (update_energy (shootLaser \<lparr>vx = 0, vy = 0, vz = 1\<rparr> (initializeGameProperties 0 []))))) = 897 / 10 \<and>
   80 \<le> maxHealth (takeDamage 20 (updateMovement_thrusters True False (1 / 60)
      (update_energy (shootLaser \<lparr>vx = 0, vy = 0, vz = 1\<rparr> (initializeGameProperties 0 []))))) \<and>
   897 / 10 \<le> maxEnergy (takeDamage 20 (updateMovement_thrusters True False (1 / 60)
      (update_energy (shootLaser \<lparr>vx = 0, vy = 0, vz = 1\<rparr> (initializeGameProperties 0 [])))))"
proof -
  let ?g = "takeDamage 20 (updateMovement_thrusters True False (1 / 60)
      (update_energy (shootLaser \<lparr>vx = 0, vy = 0, vz = 1\<rparr> (initializeGameProperties 0 []))))"
  have r: "?g \<in> reachable (\<lambda>l a. False) (\<lambda>l a. False)"
    by (intro reachable.r_damage reachable.r_thrusters reachable.r_energy reachable.r_shoot
        reachable.r_init) simp
  have h: "health ?g = 80"
    by (simp add: takeDamage_def showGameOver_def Let_def updateMovement_thrusters_def
        update_energy_def shootLaser_def initializeGameProperties_def)
  have e: "energy ?g = 897 / 10"
    by (simp add: takeDamage_def showGameOver_def Let_def updateMovement_thrusters_def
        update_energy_def shootLaser_def initializeGameProperties_def)
  show ?thesis using health_energy_bounds [OF r] r h e by simp
qed

section \<open>Collision resolution\<close>

lemma scanDown_Some: "scanDown P xs n = Some j \<Longrightarrow> j < n \<and> P (xs ! j)"
  by (induction n) (auto split: if_splits)

lemma length_splice1: "i < length xs \<Longrightarrow> length (splice1 i xs) = length xs - 1"
  by (simp add: splice1_def)

lemma take_splice1: "k \<le> i \<Longrightarrow> take k (splice1 i xs) = take k xs"
  by (simp add: splice1_def min_def take_all_iff)

lemma nth_splice1: "k < i \<Longrightarrow> i \<le> length xs \<Longrightarrow> splice1 i xs ! k = xs ! k"
  by (simp add: splice1_def nth_append)

lemma updateLasers_from_cases:
  assumes "n \<le> length (lasers g)"
  shows "(landers (updateLasers_from hit n g) = landers g \<and>
          landersDestroyed (updateLasers_from hit n g) = landersDestroyed g \<and>
          score (updateLasers_from hit n g) = score g) \<or>
         (\<exists>i<n. \<exists>j<length (landers g).
            hit (moveLaser (laserSpeed g) (lasers g ! i)) (landers g ! j) \<and>
            landers (updateLasers_from hit n g) = splice1 j (landers g) \<and>
            landersDestroyed (updateLasers_from hit n g) = landersDestroyed g + 1 \<and>
            score (updateLasers_from hit n g) = score g + 50 \<and>
            take i (lasers (updateLasers_from hit n g)) = take i (lasers g) \<and>
            length (lasers (updateLasers_from hit n g)) < length (lasers g))"
  (is "?same n g \<or> ?one n g")
  using assms
proof (induction n arbitrary: g)
  case 0
  then show ?case by simp
next
  case (Suc i)
  let ?laser = "moveLaser (laserSpeed g) (lasers g ! i)"
  let ?g1 = "g\<lparr>lasers := (lasers g)[i := ?laser]\<rparr>"
  have il: "i < length (lasers g)" using Suc.prems by simp
  show ?case
  proof (cases "scanDown (hit ?laser) (landers g) (length (landers g))")
    case (Some j)
    from scanDown_Some[OF Some] have j: "j < length (landers g)" and h: "hit ?laser (landers g ! j)"
      by simp_all
    have r: "updateLasers_from hit (Suc i) g =
        updateLandersDestroyed (?g1\<lparr>lasers := splice1 i (lasers ?g1), landers := splice1 j (landers ?g1)\<rparr>)"
      using Some by (simp add: Let_def)
    have "i < Suc i" by simp
    moreover have "landers (updateLasers_from hit (Suc i) g) = splice1 j (landers g)"
      unfolding r by (simp add: updateLandersDestroyed_def updateScore_def)
    moreover have "landersDestroyed (updateLasers_from hit (Suc i) g) = landersDestroyed g + 1"
      unfolding r by (simp add: updateLandersDestroyed_def updateScore_def)
    moreover have "score (updateLasers_from hit (Suc i) g) = score g + 50"
      unfolding r by (simp add: updateLandersDestroyed_def updateScore_def)
    moreover have "take i (lasers (updateLasers_from hit (Suc i) g)) = take i (lasers g)"
      unfolding r by (simp add: updateLandersDestroyed_def updateScore_def take_splice1)
    moreover have "length (lasers (updateLasers_from hit (Suc i) g)) < length (lasers g)"
      unfolding r using il by (simp add: updateLandersDestroyed_def updateScore_def length_splice1)
    ultimately have "?one (Suc i) g" using j h by blast
    then show ?thesis ..
  next
    case None
    define g2 where "g2 = (if Distance (position ?laser) (cameraPosition ?g1) > 500
        then ?g1\<lparr>lasers := splice1 i (lasers ?g1)\<rparr> else ?g1)"
    have r: "updateLasers_from hit (Suc i) g = updateLasers_from hit i g2"
      using None by (simp add: Let_def g2_def)
    have f: "landers g2 = landers g" "landersDestroyed g2 = landersDestroyed g"
      "score g2 = score g" "laserSpeed g2 = laserSpeed g"
      by (simp_all add: g2_def)
    have len: "i \<le> length (lasers g2)" "length (lasers g2) \<le> length (lasers g)"
      using il by (auto simp add: g2_def length_splice1)
    have tk: "\<And>k. k \<le> i \<Longrightarrow> take k (lasers g2) = take k (lasers g)"
      by (simp add: g2_def take_splice1)
    have nth: "\<And>k. k < i \<Longrightarrow> lasers g2 ! k = lasers g ! k"
      using il by (simp add: g2_def nth_splice1)
    from Suc.IH[OF len(1)] show ?thesis
    proof
      assume "?same i g2"
      then have "?same (Suc i) g" unfolding r f by simp
      then show ?thesis ..
    next
      assume "?one i g2"
      then obtain k j where k: "k < i" and j: "j < length (landers g)"
        and h: "hit (moveLaser (laserSpeed g) (lasers g2 ! k)) (landers g ! j)"
        and c: "landers (updateLasers_from hit i g2) = splice1 j (landers g)"
          "landersDestroyed (updateLasers_from hit i g2) = landersDestroyed g + 1"
          "score (updateLasers_from hit i g2) = score g + 50"
        and t: "take k (lasers (updateLasers_from hit i g2)) = take k (lasers g2)"
        and l: "length (lasers (updateLasers_from hit i g2)) < length (lasers g2)"
        unfolding f by blast
      have "k < Suc i" using k by simp
      moreover have "hit (moveLaser (laserSpeed g) (lasers g ! k)) (landers g ! j)"
        using h nth[OF k] by simp
      moreover have "take k (lasers (updateLasers_from hit (Suc i) g)) = take k (lasers g)"
        unfolding r t using tk[of k] k by simp
      moreover have "length (lasers (updateLasers_from hit (Suc i) g)) < length (lasers g)"
        unfolding r using l len(2) by simp
      ultimately have "?one (Suc i) g" using j c unfolding r by blast
      then show ?thesis ..
    qed
  qed
qed

lemma takeDamage_frame:
  "astronauts (takeDamage a g) = astronauts g"
  "landers (takeDamage a g) = landers g"
  "gamePlaneZ (takeDamage a g) = gamePlaneZ g"
  by (simp_all add: takeDamage_def showGameOver_def Let_def)

lemma updateLanders_from_cases:
  assumes "n \<le> length (landers g)"
  shows "astronauts (updateLanders_from touch n g) = astronauts g \<or>
         (\<exists>i<n. \<exists>j<length (astronauts g).
            touch (Lander_update (gamePlaneZ g) (astronauts g) (landers g ! i)) (astronauts g ! j) \<and>
            astronauts (updateLanders_from touch n g) = splice1 j (astronauts g) \<and>
            take i (landers (updateLanders_from touch n g)) = take i (landers g) \<and>
            length (landers (updateLanders_from touch n g)) < length (landers g))"
  (is "?same n g \<or> ?one n g")
  using assms
proof (induction n arbitrary: g)
  case 0
  then show ?case by simp
next
  case (Suc i)
  let ?lander = "Lander_update (gamePlaneZ g) (astronauts g) (landers g ! i)"
  let ?g1 = "g\<lparr>landers := (landers g)[i := ?lander]\<rparr>"
  let ?near = "Distance (position ?lander) (cameraPosition g) < 3"
  let ?scan = "scanDown (touch ?lander) (astronauts g) (length (astronauts g))"
  have il: "i < length (landers g)" using Suc.prems by simp
  show ?case
  proof (cases "\<not> ?near \<and> ?scan \<noteq> None")
    case True
    then obtain j where Some: "?scan = Some j" by blast
    from scanDown_Some[OF Some] have j: "j < length (astronauts g)"
      and h: "touch ?lander (astronauts g ! j)"
      by simp_all
    have r: "updateLanders_from touch (Suc i) g =
        ?g1\<lparr>landers := splice1 i (landers ?g1), astronauts := splice1 j (astronauts ?g1)\<rparr>"
      using True Some by (simp add: Let_def)
    have "i < Suc i" by simp
    moreover have "astronauts (updateLanders_from touch (Suc i) g) = splice1 j (astronauts g)"
      unfolding r by simp
    moreover have "take i (landers (updateLanders_from touch (Suc i) g)) = take i (landers g)"
      unfolding r by (simp add: take_splice1)
    moreover have "length (landers (updateLanders_from touch (Suc i) g)) < length (landers g)"
      unfolding r using il by (simp add: length_splice1)
    ultimately have "?one (Suc i) g" using j h by blast
    then show ?thesis ..
  next
    case False
    define g2 where "g2 =
      (if ?near then (takeDamage 20 ?g1)\<lparr>landers := splice1 i (landers (takeDamage 20 ?g1))\<rparr>
       else if vz (position ?lander) < - 500 then ?g1\<lparr>landers := splice1 i (landers ?g1)\<rparr>
       else ?g1)"
    have r: "updateLanders_from touch (Suc i) g = updateLanders_from touch i g2"
      using False by (auto simp add: Let_def g2_def)
    have f: "astronauts g2 = astronauts g" "gamePlaneZ g2 = gamePlaneZ g"
      by (simp_all add: g2_def takeDamage_frame)
    have len: "i \<le> length (landers g2)" "length (landers g2) \<le> length (landers g)"
      using il by (auto simp add: g2_def length_splice1 takeDamage_frame)
    have tk: "\<And>k. k \<le> i \<Longrightarrow> take k (landers g2) = take k (landers g)"
      by (simp add: g2_def take_splice1 takeDamage_frame)
    have nth: "\<And>k. k < i \<Longrightarrow> landers g2 ! k = landers g ! k"
      using il by (simp add: g2_def nth_splice1 takeDamage_frame)
    from Suc.IH[OF len(1)] show ?thesis
    proof
      assume "?same i g2"
      then have "?same (Suc i) g" unfolding r f by simp
      then show ?thesis ..
    next
      assume "?one i g2"
      then obtain k j where k: "k < i" and j: "j < length (astronauts g)"
        and h: "touch (Lander_update (gamePlaneZ g) (astronauts g) (landers g2 ! k)) (astronauts g ! j)"
        and c: "astronauts (updateLanders_from touch i g2) = splice1 j (astronauts g)"
        and t: "take k (landers (updateLanders_from touch i g2)) = take k (landers g2)"
        and l: "length (landers (updateLanders_from touch i g2)) < length (landers g2)"
        unfolding f by blast
      have "k < Suc i" using k by simp
      moreover have "touch (Lander_update (gamePlaneZ g) (astronauts g) (landers g ! k)) (astronauts g ! j)"
        using h nth[OF k] by simp
      moreover have "take k (landers (updateLanders_from touch (Suc i) g)) = take k (landers g)"
        unfolding r t using tk[of k] k by simp
      moreover have "length (landers (updateLanders_from touch (Suc i) g)) < length (landers g)"
        unfolding r using l len(2) by simp
      ultimately have "?one (Suc i) g" using j c unfolding r by blast
      then show ?thesis ..
    qed
  qed
qed

lemma counters_updateLanders_from:
  "score (updateLanders_from touch n g) = score g \<and>
   landersDestroyed (updateLanders_from touch n g) = landersDestroyed g \<and>
   astronautsSaved (updateLanders_from touch n g) = astronautsSaved g"
  by (induction n arbitrary: g)
     (simp_all add: Let_def takeDamage_def showGameOver_def split: option.split)

lemma astronautsSaved_updateLasers_from:
  "astronautsSaved (updateLasers_from hit n g) = astronautsSaved g"
  by (induction n arbitrary: g)
     (simp_all add: Let_def updateLandersDestroyed_def updateScore_def split: option.split)

lemma updateLasers_from_hit:
  assumes "i < length (lasers g)"
    and "scanDown (hit (moveLaser (laserSpeed g) (lasers g ! i))) (landers g) (length (landers g)) = Some j"
  shows "lasers (updateLasers_from hit (Suc i) g) = splice1 i (lasers g) \<and>
         landers (updateLasers_from hit (Suc i) g) = splice1 j (landers g) \<and>
         landersDestroyed (updateLasers_from hit (Suc i) g) = landersDestroyed g + 1 \<and>
         score (updateLasers_from hit (Suc i) g) = score g + 50"
  using assms
  by (simp add: Let_def updateLandersDestroyed_def updateScore_def splice1_def)

lemma counters_updateAstronauts_from:
  "n \<le> length (astronauts g) \<Longrightarrow>
   score (updateAstronauts_from n g) =
     score g - 50 * (int (length (astronauts g)) - int (length (astronauts (updateAstronauts_from n g)))) \<and>
   length (astronauts (updateAstronauts_from n g)) \<le> length (astronauts g) \<and>
   landersDestroyed (updateAstronauts_from n g) = landersDestroyed g \<and>
   astronautsSaved (updateAstronauts_from n g) = astronautsSaved g"
proof (induction n arbitrary: g)
  case 0
  then show ?case by simp
next
  case (Suc i)
  let ?a = "astronauts g ! i"
  let ?a1 = "?a\<lparr>position := (position ?a)\<lparr>vy := vy (position ?a) - gameSpeed g * (3 / 10)\<rparr>\<rparr>"
  let ?g1 = "g\<lparr>astronauts := (astronauts g)[i := ?a1]\<rparr>"
  let ?g2 = "updateScore (- 50) (?g1\<lparr>astronauts := splice1 i (astronauts ?g1)\<rparr>)"
  have il: "i < length (astronauts g)" using Suc.prems by simp
  show ?case
  proof (cases "vy (position ?a1) < - 100")
    case True
    then have r: "updateAstronauts_from (Suc i) g = updateAstronauts_from i ?g2"
      by (simp add: Let_def)
    have l2: "length (astronauts ?g2) = length (astronauts g) - 1"
      using il by (simp add: updateScore_def length_splice1)
    have f: "score ?g2 = score g - 50" "landersDestroyed ?g2 = landersDestroyed g"
      "astronautsSaved ?g2 = astronautsSaved g"
      by (simp_all add: updateScore_def)
    have "i \<le> length (astronauts ?g2)" using il l2 by simp
    from Suc.IH[OF this] show ?thesis
      unfolding r f l2 using il by auto
  next
    case False
    then have r: "updateAstronauts_from (Suc i) g = updateAstronauts_from i ?g1"
      by (simp add: Let_def)
    have "i \<le> length (astronauts ?g1)" using il by simp
    from Suc.IH[OF this] show ?thesis
      unfolding r by simp
  qed
qed

text \<open>
  Claim C2. Every laser-lander collision that is resolved removes the laser and the lander
  from their lists, adds 1 to \<open>landersDestroyed\<close> and exactly 50 to the score. This holds
  for the step of \<open>updateLasers\<close> that finds a hit (laser \<open>i\<close>, lander \<open>j\<close>) and for a
  whole call, which either leaves landers, counter and score as they were or does exactly
  that once. No other score change comes from the collision code. \<open>updateLanders\<close>
  changes neither the score nor the counters. \<open>checkCollisions\<close> changes nothing: with no
  laser or no lander it has nothing to do, and otherwise its test throws a \<open>TypeError\<close> on
  the first lander it looks at, so its own score award is never reached.
  \<open>updateAstronauts\<close> takes 50 off the score for each astronaut it removes as out of
  bounds, the penalty, and leaves the counters alone.
\<close>

theorem collision_scores_paired:
  "((landers (updateLasers hit g) = landers g \<and>
     landersDestroyed (updateLasers hit g) = landersDestroyed g \<and>
     score (updateLasers hit g) = score g) \<or>
    ((\<exists>j<length (landers g). landers (updateLasers hit g) = splice1 j (landers g)) \<and>
     length (landers (updateLasers hit g)) + 1 = length (landers g) \<and>
     length (lasers (updateLasers hit g)) < length (lasers g) \<and>
     landersDestroyed (updateLasers hit g) = landersDestroyed g + 1 \<and>
     score (updateLasers hit g) = score g + 50)) \<and>
   astronautsSaved (updateLasers hit g) = astronautsSaved g \<and>
   (i < length (lasers g) \<and>
    scanDown (hit (moveLaser (laserSpeed g) (lasers g ! i))) (landers g) (length (landers g)) = Some j
    \<longrightarrow>
      j < length (landers g) \<and>
      hit (moveLaser (laserSpeed g) (lasers g ! i)) (landers g ! j) \<and>
      lasers (updateLasers_from hit (Suc i) g) = splice1 i (lasers g) \<and>
      landers (updateLasers_from hit (Suc i) g) = splice1 j (landers g) \<and>
      landersDestroyed (updateLasers_from hit (Suc i) g) = landersDestroyed g + 1 \<and>
      score (updateLasers_from hit (Suc i) g) = score g + 50) \<and>
   score (updateLanders touch g) = score g \<and>
   landersDestroyed (updateLanders touch g) = landersDestroyed g \<and>
   astronautsSaved (updateLanders touch g) = astronautsSaved g \<and>
   checkCollisions g =
     (if lasers g = [] \<or> landers g = [] then Inr g else Inl (TypeError, g)) \<and>
   score (update_catch (checkCollisions g)) = score g \<and>
   lasers (update_catch (checkCollisions g)) = lasers g \<and>
   landers (update_catch (checkCollisions g)) = landers g \<and>
   score (updateAstronauts g) =
     score g - 50 * (int (length (astronauts g)) - int (length (astronauts (updateAstronauts g)))) \<and>
   landersDestroyed (updateAstronauts g) = landersDestroyed g \<and>
   astronautsSaved (updateAstronauts g) = astronautsSaved g"
proof -
  have c: "(landers (updateLasers hit g) = landers g \<and>
          landersDestroyed (updateLasers hit g) = landersDestroyed g \<and>
          score (updateLasers hit g) = score g) \<or>
         (\<exists>i<length (lasers g). \<exists>j<length (landers g).
            hit (moveLaser (laserSpeed g) (lasers g ! i)) (landers g ! j) \<and>
            landers (updateLasers hit g) = splice1 j (landers g) \<and>
            landersDestroyed (updateLasers hit g) = landersDestroyed g + 1 \<and>
            score (updateLasers hit g) = score g + 50 \<and>
            take i (lasers (updateLasers hit g)) = take i (lasers g) \<and>
            length (lasers (updateLasers hit g)) < length (lasers g))"
    unfolding updateLasers_def by (rule updateLasers_from_cases) simp
  have p1: "(landers (updateLasers hit g) = landers g \<and>
     landersDestroyed (updateLasers hit g) = landersDestroyed g \<and>
     score (updateLasers hit g) = score g) \<or>
    ((\<exists>j<length (landers g). landers (updateLasers hit g) = splice1 j (landers g)) \<and>
     length (landers (updateLasers hit g)) + 1 = length (landers g) \<and>
     length (lasers (updateLasers hit g)) < length (lasers g) \<and>
     landersDestroyed (updateLasers hit g) = landersDestroyed g + 1 \<and>
     score (updateLasers hit g) = score g + 50)"
    using c
  proof
    assume "landers (updateLasers hit g) = landers g \<and>
          landersDestroyed (updateLasers hit g) = landersDestroyed g \<and>
          score (updateLasers hit g) = score g"
    then show ?thesis ..
  next
    assume "\<exists>i<length (lasers g). \<exists>j<length (landers g).
            hit (moveLaser (laserSpeed g) (lasers g ! i)) (landers g ! j) \<and>
            landers (updateLasers hit g) = splice1 j (landers g) \<and>
            landersDestroyed (updateLasers hit g) = landersDestroyed g + 1 \<and>
            score (updateLasers hit g) = score g + 50 \<and>
            take i (lasers (updateLasers hit g)) = take i (lasers g) \<and>
            length (lasers (updateLasers hit g)) < length (lasers g)"
    then obtain i j where j: "j < length (landers g)"
      and l: "landers (updateLasers hit g) = splice1 j (landers g)"
      and r: "landersDestroyed (updateLasers hit g) = landersDestroyed g + 1"
        "score (updateLasers hit g) = score g + 50"
        "length (lasers (updateLasers hit g)) < length (lasers g)"
      by blast
    have "length (landers (updateLasers hit g)) + 1 = length (landers g)"
      unfolding l using j by (simp add: length_splice1)
    with j l r show ?thesis by blast
  qed
  have p2: "astronautsSaved (updateLasers hit g) = astronautsSaved g"
    by (simp add: updateLasers_def astronautsSaved_updateLasers_from)
  have p3: "i < length (lasers g) \<and>
    scanDown (hit (moveLaser (laserSpeed g) (lasers g ! i))) (landers g) (length (landers g)) = Some j
    \<longrightarrow>
      j < length (landers g) \<and>
      hit (moveLaser (laserSpeed g) (lasers g ! i)) (landers g ! j) \<and>
      lasers (updateLasers_from hit (Suc i) g) = splice1 i (lasers g) \<and>
      landers (updateLasers_from hit (Suc i) g) = splice1 j (landers g) \<and>
      landersDestroyed (updateLasers_from hit (Suc i) g) = landersDestroyed g + 1 \<and>
      score (updateLasers_from hit (Suc i) g) = score g + 50"
    using updateLasers_from_hit[of i g hit j]
      scanDown_Some[of "hit (moveLaser (laserSpeed g) (lasers g ! i))" "landers g" "length (landers g)" j]
    by blast
  have p4: "score (updateLanders touch g) = score g \<and>
   landersDestroyed (updateLanders touch g) = landersDestroyed g \<and>
   astronautsSaved (updateLanders touch g) = astronautsSaved g"
    unfolding updateLanders_def by (rule counters_updateLanders_from)
  have p5: "checkCollisions g =
     (if lasers g = [] \<or> landers g = [] then Inr g else Inl (TypeError, g))"
    by (rule checkCollisions_eq)
  have p6: "score (update_catch (checkCollisions g)) = score g \<and>
   lasers (update_catch (checkCollisions g)) = lasers g \<and>
   landers (update_catch (checkCollisions g)) = landers g"
    by (simp add: checkCollisions_eq)
  have p7: "score (updateAstronauts g) =
     score g - 50 * (int (length (astronauts g)) - int (length (astronauts (updateAstronauts g)))) \<and>
   landersDestroyed (updateAstronauts g) = landersDestroyed g \<and>
   astronautsSaved (updateAstronauts g) = astronautsSaved g"
    using counters_updateAstronauts_from[of "length (astronauts g)" g]
    by (simp add: updateAstronauts_def)
  from p1 p2 p3 p4 p5 p6 p7 show ?thesis by blast
qed

theorem collision_scores_paired_witness:
  "lasers (updateLasers (\<lambda>laser lander. True) ((initializeGameProperties 0 [])
      \<lparr>lasers := [\<lparr>position = \<lparr>vx = 0, vy = 0, vz = 0\<rparr>, direction = \<lparr>vx = 0, vy = 0, vz = 1\<rparr>\<rparr>],
       landers := [Lander_new \<lparr>vx = 0, vy = 0, vz = 1\<rparr>]\<rparr>)) = [] \<and>
   landers (updateLasers (\<lambda>laser lander. True) ((initializeGameProperties 0 [])
      \<lparr>lasers := [\<lparr>position = \<lparr>vx = 0, vy = 0, vz = 0\<rparr>, direction = \<lparr>vx = 0, vy = 0, vz = 1\<rparr>\<rparr>],
       landers := [Lander_new \<lparr>vx = 0, vy = 0, vz = 1\<rparr>]\<rparr>)) = [] \<and>
   score (updateLasers (\<lambda>laser lander. True) ((initializeGameProperties 0 [])
      \<lparr>lasers := [\<lparr>position = \<lparr>vx = 0, vy = 0, vz = 0\<rparr>, direction = \<lparr>vx = 0, vy = 0, vz = 1\<rparr>\<rparr>],
       landers := [Lander_new \<lparr>vx = 0, vy = 0, vz = 1\<rparr>]\<rparr>)) = 50 \<and>
   landersDestroyed (updateLasers (\<lambda>laser lander. True) ((initializeGameProperties 0 [])
      \<lparr>lasers := [\<lparr>position = \<lparr>vx = 0, vy = 0, vz = 0\<rparr>, direction = \<lparr>vx = 0, vy = 0, vz = 1\<rparr>\<rparr>],
       landers := [Lander_new \<lparr>vx = 0, vy = 0, vz = 1\<rparr>]\<rparr>)) = 1 \<and>
   checkCollisions ((initializeGameProperties 0 [])
      \<lparr>lasers := [\<lparr>position = \<lparr>vx = 0, vy = 0, vz = 0\<rparr>, direction = \<lparr>vx = 0, vy = 0, vz = 1\<rparr>\<rparr>],
       landers := [Lander_new \<lparr>vx = 0, vy = 0, vz = 1\<rparr>]\<rparr>)
     = Inl (TypeError, (initializeGameProperties 0 [])
      \<lparr>lasers := [\<lparr>position = \<lparr>vx = 0, vy = 0, vz = 0\<rparr>, direction = \<lparr>vx = 0, vy = 0, vz = 1\<rparr>\<rparr>],
       landers := [Lander_new \<lparr>vx = 0, vy = 0, vz = 1\<rparr>]\<rparr>)"
proof -
  let ?G = "(initializeGameProperties 0 [])
      \<lparr>lasers := [\<lparr>position = \<lparr>vx = 0, vy = 0, vz = 0\<rparr>, direction = \<lparr>vx = 0, vy = 0, vz = 1\<rparr>\<rparr>],
       landers := [Lander_new \<lparr>vx = 0, vy = 0, vz = 1\<rparr>]\<rparr>"
  have i: "0 < length (lasers ?G)" by simp
  have s: "scanDown ((\<lambda>laser lander. True) (moveLaser (laserSpeed ?G) (lasers ?G ! 0)))
      (landers ?G) (length (landers ?G)) = Some 0"
    by simp
  have u: "updateLasers (\<lambda>laser lander. True) ?G = updateLasers_from (\<lambda>laser lander. True) (Suc 0) ?G"
    by (simp add: updateLasers_def)
  have e: "splice1 0 [x] = []" for x :: 'a by (simp add: splice1_def)
  show ?thesis
    using collision_scores_paired [of "\<lambda>laser lander. True" ?G 0 0 "\<lambda>lander astronaut. True"] i s
    unfolding u by (simp add: e initializeGameProperties_def)
qed

text \<open>
  Claim C8. One call of \<open>updateLasers\<close> resolves at most one laser-lander pair: either
  the landers, the counter and the score are as before, or exactly one lander is removed,
  the one at an index \<open>j\<close> that the moved laser at an index \<open>i\<close> hits, with the counter
  up by 1 and the score by 50; the lasers below \<open>i\<close> are then as they were before the
  call, neither moved nor removed, so the scan stopped there. One call of
  \<open>updateLanders\<close> resolves at most one lander-astronaut pair in the same way: either
  the astronauts are as before, or exactly one is removed, the one at \<open>j\<close> that the
  steered lander at \<open>i\<close> touches, and the landers below \<open>i\<close> are as they were.
\<close>

theorem collision_scans_one_pair:
  "((landers (updateLasers hit g) = landers g \<and>
     landersDestroyed (updateLasers hit g) = landersDestroyed g \<and>
     score (updateLasers hit g) = score g) \<or>
    (\<exists>i<length (lasers g). \<exists>j<length (landers g).
       hit (moveLaser (laserSpeed g) (lasers g ! i)) (landers g ! j) \<and>
       landers (updateLasers hit g) = splice1 j (landers g) \<and>
       landersDestroyed (updateLasers hit g) = landersDestroyed g + 1 \<and>
       score (updateLasers hit g) = score g + 50 \<and>
       take i (lasers (updateLasers hit g)) = take i (lasers g) \<and>
       length (lasers (updateLasers hit g)) < length (lasers g))) \<and>
   (astronauts (updateLanders touch g) = astronauts g \<or>
    (\<exists>i<length (landers g). \<exists>j<length (astronauts g).
       touch (Lander_update (gamePlaneZ g) (astronauts g) (landers g ! i)) (astronauts g ! j) \<and>
       astronauts (updateLanders touch g) = splice1 j (astronauts g) \<and>
       take i (landers (updateLanders touch g)) = take i (landers g) \<and>
       length (landers (updateLanders touch g)) < length (landers g))) \<and>
   length (landers g) \<le> length (landers (updateLasers hit g)) + 1 \<and>
   length (astronauts g) \<le> length (astronauts (updateLanders touch g)) + 1"
proof (intro conjI)
  show a: "(landers (updateLasers hit g) = landers g \<and>
     landersDestroyed (updateLasers hit g) = landersDestroyed g \<and>
     score (updateLasers hit g) = score g) \<or>
    (\<exists>i<length (lasers g). \<exists>j<length (landers g).
       hit (moveLaser (laserSpeed g) (lasers g ! i)) (landers g ! j) \<and>
       landers (updateLasers hit g) = splice1 j (landers g) \<and>
       landersDestroyed (updateLasers hit g) = landersDestroyed g + 1 \<and>
       score (updateLasers hit g) = score g + 50 \<and>
       take i (lasers (updateLasers hit g)) = take i (lasers g) \<and>
       length (lasers (updateLasers hit g)) < length (lasers g))"
    unfolding updateLasers_def by (rule updateLasers_from_cases) simp
  show b: "astronauts (updateLanders touch g) = astronauts g \<or>
    (\<exists>i<length (landers g). \<exists>j<length (astronauts g).
       touch (Lander_update (gamePlaneZ g) (astronauts g) (landers g ! i)) (astronauts g ! j) \<and>
       astronauts (updateLanders touch g) = splice1 j (astronauts g) \<and>
       take i (landers (updateLanders touch g)) = take i (landers g) \<and>
       length (landers (updateLanders touch g)) < length (landers g))"
    unfolding updateLanders_def by (rule updateLanders_from_cases) simp
  from a show "length (landers g) \<le> length (landers (updateLasers hit g)) + 1"
    by (auto simp add: length_splice1)
  from b show "length (astronauts g) \<le> length (astronauts (updateLanders touch g)) + 1"
    by (auto simp add: length_splice1)
qed

theorem collision_scans_one_pair_witness:
  "lasers (updateLasers (\<lambda>laser lander. True) ((initializeGameProperties 0 [])
      \<lparr>lasers := [\<lparr>position = \<lparr>vx = 0, vy = 0, vz = 0\<rparr>, direction = \<lparr>vx = 0, vy = 0, vz = 1\<rparr>\<rparr>,
                  \<lparr>position = \<lparr>vx = 1, vy = 0, vz = 0\<rparr>, direction = \<lparr>vx = 0, vy = 0, vz = 1\<rparr>\<rparr>],
       landers := [Lander_new \<lparr>vx = 0, vy = 0, vz = 1\<rparr>, Lander_new \<lparr>vx = 5, vy = 0, vz = 1\<rparr>]\<rparr>))
     = [\<lparr>position = \<lparr>vx = 0, vy = 0, vz = 0\<rparr>, direction = \<lparr>vx = 0, vy = 0, vz = 1\<rparr>\<rparr>] \<and>
   landers (updateLasers (\<lambda>laser lander. True) ((initializeGameProperties 0 [])
      \<lparr>lasers := [\<lparr>position = \<lparr>vx = 0, vy = 0, vz = 0\<rparr>, direction = \<lparr>vx = 0, vy = 0, vz = 1\<rparr>\<rparr>,
                  \<lparr>position = \<lparr>vx = 1, vy = 0, vz = 0\<rparr>, direction = \<lparr>vx = 0, vy = 0, vz = 1\<rparr>\<rparr>],
       landers := [Lander_new \<lparr>vx = 0, vy = 0, vz = 1\<rparr>, Lander_new \<lparr>vx = 5, vy = 0, vz = 1\<rparr>]\<rparr>))
     = [Lander_new \<lparr>vx = 0, vy = 0, vz = 1\<rparr>] \<and>
   landersDestroyed (updateLasers (\<lambda>laser lander. True) ((initializeGameProperties 0 [])
      \<lparr>lasers := [\<lparr>position = \<lparr>vx = 0, vy = 0, vz = 0\<rparr>, direction = \<lparr>vx = 0, vy = 0, vz = 1\<rparr>\<rparr>,
                  \<lparr>position = \<lparr>vx = 1, vy = 0, vz = 0\<rparr>, direction = \<lparr>vx = 0, vy = 0, vz = 1\<rparr>\<rparr>],
       landers := [Lander_new \<lparr>vx = 0, vy = 0, vz = 1\<rparr>, Lander_new \<lparr>vx = 5, vy = 0, vz = 1\<rparr>]\<rparr>))
     = 1 \<and>
   astronauts (updateLanders (\<lambda>lander astronaut. True)
      ((initializeGameProperties 0
          [\<lparr>position = \<lparr>vx = 0, vy = 0, vz = 0\<rparr>, initialZ = 0, initialX = 0\<rparr>,
           \<lparr>position = \<lparr>vx = 0, vy = 0, vz = 0\<rparr>, initialZ = 0, initialX = 0\<rparr>])
       \<lparr>landers := [Lander_new \<lparr>vx = 400, vy = 0, vz = 0\<rparr>, Lander_new \<lparr>vx = 400, vy = 0, vz = 0\<rparr>]\<rparr>))
     = [\<lparr>position = \<lparr>vx = 0, vy = 0, vz = 0\<rparr>, initialZ = 0, initialX = 0\<rparr>] \<and>
   landers (updateLanders (\<lambda>lander astronaut. True)
      ((initializeGameProperties 0
          [\<lparr>position = \<lparr>vx = 0, vy = 0, vz = 0\<rparr>, initialZ = 0, initialX = 0\<rparr>,
           \<lparr>position = \<lparr>vx = 0, vy = 0, vz = 0\<rparr>, initialZ = 0, initialX = 0\<rparr>])
       \<lparr>landers := [Lander_new \<lparr>vx = 400, vy = 0, vz = 0\<rparr>, Lander_new \<lparr>vx = 400, vy = 0, vz = 0\<rparr>]\<rparr>))
     = [Lander_new \<lparr>vx = 400, vy = 0, vz = 0\<rparr>]"
proof -
  let ?G = "(initializeGameProperties 0 [])
      \<lparr>lasers := [\<lparr>position = \<lparr>vx = 0, vy = 0, vz = 0\<rparr>, direction = \<lparr>vx = 0, vy = 0, vz = 1\<rparr>\<rparr>,
                  \<lparr>position = \<lparr>vx = 1, vy = 0, vz = 0\<rparr>, direction = \<lparr>vx = 0, vy = 0, vz = 1\<rparr>\<rparr>],
       landers := [Lander_new \<lparr>vx = 0, vy = 0, vz = 1\<rparr>, Lander_new \<lparr>vx = 5, vy = 0, vz = 1\<rparr>]\<rparr>"
  let ?H = "(initializeGameProperties 0
          [\<lparr>position = \<lparr>vx = 0, vy = 0, vz = 0\<rparr>, initialZ = 0, initialX = 0\<rparr>,
           \<lparr>position = \<lparr>vx = 0, vy = 0, vz = 0\<rparr>, initialZ = 0, initialX = 0\<rparr>])
       \<lparr>landers := [Lander_new \<lparr>vx = 400, vy = 0, vz = 0\<rparr>, Lander_new \<lparr>vx = 400, vy = 0, vz = 0\<rparr>]\<rparr>"
  have a: "updateLasers (\<lambda>laser lander. True) ?G =
     ?G\<lparr>lasers := [\<lparr>position = \<lparr>vx = 0, vy = 0, vz = 0\<rparr>, direction = \<lparr>vx = 0, vy = 0, vz = 1\<rparr>\<rparr>],
         landers := [Lander_new \<lparr>vx = 0, vy = 0, vz = 1\<rparr>],
         landersDestroyed := 1, score := 50\<rparr>"
    by (simp add: updateLasers_def initializeGameProperties_def splice1_def
        updateLandersDestroyed_def updateScore_def Let_def)
  have far: "\<not> sqrt y < 3" if "9 \<le> y" for y :: real
  proof -
    have "3\<^sup>2 \<le> y" using that by simp
    then have "3 \<le> sqrt y" by (rule real_le_rsqrt)
    then show ?thesis by simp
  qed
  have n: "vx (normalize_vec (subtract \<lparr>vx = 0, vy = 0, vz = 0\<rparr> \<lparr>vx = 400, vy = 0, vz = 0\<rparr>)) = - 1"
    by (simp add: normalize_vec_def vlength_def subtract_def scale_def)
  have u: "Lander_update 0
          [\<lparr>position = \<lparr>vx = 0, vy = 0, vz = 0\<rparr>, initialZ = 0, initialX = 0\<rparr>,
           \<lparr>position = \<lparr>vx = 0, vy = 0, vz = 0\<rparr>, initialZ = 0, initialX = 0\<rparr>]
          (Lander_new \<lparr>vx = 400, vy = 0, vz = 0\<rparr>) = Lander_new \<lparr>vx = 3997 / 10, vy = 0, vz = 0\<rparr>"
    by (simp add: Lander_update_def Lander_new_def Let_def n)
  have d: "\<not> Distance (position (Lander_new \<lparr>vx = 3997 / 10, vy = 0, vz = 0\<rparr>)) \<lparr>vx = 0, vy = 10, vz = - 8\<rparr> < 3"
    by (simp add: Distance_def Lander_new_def far)
  have b: "updateLanders (\<lambda>lander astronaut. True) ?H =
     ?H\<lparr>landers := [Lander_new \<lparr>vx = 400, vy = 0, vz = 0\<rparr>],
         astronauts := [\<lparr>position = \<lparr>vx = 0, vy = 0, vz = 0\<rparr>, initialZ = 0, initialX = 0\<rparr>]\<rparr>"
    using d
    by (simp add: updateLanders_def initializeGameProperties_def splice1_def Let_def u)
  show ?thesis
    using collision_scans_one_pair [of "\<lambda>laser lander. True" ?G "\<lambda>lander astronaut. True"]
      collision_scans_one_pair [of "\<lambda>laser lander. True" ?H "\<lambda>lander astronaut. True"]
    unfolding a b by (simp add: initializeGameProperties_def)
qed

end
